theory Spec2Isabelle
  imports Complex_Main "HOL-Library.Multiset"
begin

section \<open>Data model (domain/trade\_lifecycle.py)\<close>

text \<open>
  Conventions of the embedding.
  \<^item> A Python \<open>Decimal\<close> is modelled as an exact rational (\<^typ>\<open>rat\<close>): sums, products,
    comparisons and quotients are the mathematical ones. The rounding of the decimal context
    (28 significant digits by default) is not modelled.
  \<^item> A \<open>datetime\<close> is modelled as an instant: an \<^typ>\<open>int\<close> counting microseconds since the
    epoch. Sorting by \<open>ts\<close> with Python's stable \<open>sorted\<close> is \<^const>\<open>sort_key\<close>, which is
    stable as well.
  \<^item> Fields of the pydantic models that none of the modelled functions reads
    (fee currency, maker/taker flag, raw payload, tags, ...) are left out.
\<close>

datatype PositionSide = PS_long | PS_short | PS_unknown

datatype Side = buy | sell

datatype TradeSide = TS_open | TS_close | TS_unknown

datatype Status = status_open | status_closed

record ExecutionFill =
  ts :: int
  side :: Side
  price :: rat
  amount :: rat
  fee_cost :: rat
  trade_side :: TradeSide
  reported_profit_usdt :: "rat option"
  hold_side :: PositionSide
  trade_id :: "string option"
  order_id :: "string option"

record TradePlan =
  plan_stop_loss :: "rat option"
  plan_take_profit :: "rat option"
  plan_entry :: "rat option"

record TradeMetrics =
  entry_ts :: "int option"
  exit_ts :: "int option"
  holding_seconds :: "int option"
  entry_avg_price :: "rat option"
  exit_avg_price :: "rat option"
  max_abs_position_amount :: "rat option"
  max_abs_notional_usdt :: "rat option"
  realized_pnl_usdt :: "rat option"
  realized_pnl_pct :: "rat option"
  realized_pnl_pct_of_available_margin :: "rat option"
  total_fees_usdt :: "rat option"
  total_funding_usdt :: "rat option"
  available_margin_usdt_at_entry :: "rat option"
  equity_usdt_at_entry :: "rat option"
  fills_count :: nat
  adds_count :: nat
  reductions_count :: nat

record RiskMetrics =
  planned_stop_loss :: "rat option"
  actual_stop_loss :: "rat option"
  initial_risk_usdt :: "rat option"
  r_multiple :: "rat option"

record TradeLifecycle =
  lifecycle_id :: string
  exchange :: string
  symbol :: string
  position_side :: PositionSide
  fills :: "ExecutionFill list"
  funding_payments_usdt :: "(int \<times> rat) list"
  plan :: TradePlan
  metrics :: TradeMetrics
  risk :: RiskMetrics
  status :: Status

text \<open>The field defaults of the pydantic models.\<close>

definition TradePlan_default :: TradePlan where
  "TradePlan_default = \<lparr>plan_stop_loss = None, plan_take_profit = None, plan_entry = None\<rparr>"

definition TradeMetrics_default :: TradeMetrics where
  "TradeMetrics_default =
     \<lparr>entry_ts = None, exit_ts = None, holding_seconds = None,
      entry_avg_price = None, exit_avg_price = None,
      max_abs_position_amount = None, max_abs_notional_usdt = None,
      realized_pnl_usdt = None, realized_pnl_pct = None,
      realized_pnl_pct_of_available_margin = None,
      total_fees_usdt = None, total_funding_usdt = None,
      available_margin_usdt_at_entry = None, equity_usdt_at_entry = None,
      fills_count = 0, adds_count = 0, reductions_count = 0\<rparr>"

definition RiskMetrics_default :: RiskMetrics where
  "RiskMetrics_default =
     \<lparr>planned_stop_loss = None, actual_stop_loss = None,
      initial_risk_usdt = None, r_multiple = None\<rparr>"

section \<open>Metrics recomputation (TradeLifecycle.recompute)\<close>

text \<open>The local variables of the position-tracking loop of \<open>recompute\<close>.\<close>

record pos_state =
  pos :: rat
  max_abs_pos :: rat
  avg_entry :: rat
  realized :: rat
  realized_reported :: rat
  has_reported :: bool

definition pos_state_init :: pos_state where
  "pos_state_init =
     \<lparr>pos = 0, max_abs_pos = 0, avg_entry = 0, realized = 0,
      realized_reported = 0, has_reported = False\<rparr>"

text \<open>\<open>delta = qty if f.side == "buy" else -qty\<close>\<close>

definition fill_delta :: "ExecutionFill \<Rightarrow> rat" where
  "fill_delta f = (if side f = buy then amount f else - amount f)"

text \<open>The first statement of the loop body: accumulate the exchange-reported profit.\<close>

definition add_reported :: "pos_state \<Rightarrow> ExecutionFill \<Rightarrow> pos_state" where
  "add_reported s f =
     (case reported_profit_usdt f of
        None \<Rightarrow> s
      | Some p \<Rightarrow> s\<lparr>realized_reported := realized_reported s + p, has_reported := True\<rparr>)"

text \<open>The branch "same direction add" of the loop body.\<close>

definition same_direction :: "rat \<Rightarrow> rat \<Rightarrow> bool" where
  "same_direction prev_pos delta \<longleftrightarrow>
     prev_pos = 0 \<or> (prev_pos > 0 \<and> delta > 0) \<or> (prev_pos < 0 \<and> delta < 0)"

definition extend_position :: "pos_state \<Rightarrow> rat \<Rightarrow> rat \<Rightarrow> pos_state" where
  "extend_position s px delta =
     (let prev_pos = pos s;
          new_pos = prev_pos + delta
      in s\<lparr>avg_entry :=
              (if prev_pos = 0 then px
               else (avg_entry s * \<bar>prev_pos\<bar> + px * \<bar>delta\<bar>) / \<bar>new_pos\<bar>),
            pos := new_pos\<rparr>)"

text \<open>The branch "reducing or reversing" of the loop body.\<close>

definition reduce_or_reverse :: "pos_state \<Rightarrow> rat \<Rightarrow> rat \<Rightarrow> pos_state" where
  "reduce_or_reverse s px delta =
     (let prev_pos = pos s;
          close_qty = min \<bar>prev_pos\<bar> \<bar>delta\<bar>;
          realized' =
            (if prev_pos > 0 \<and> delta < 0 then realized s + (px - avg_entry s) * close_qty
             else if prev_pos < 0 \<and> delta > 0 then realized s + (avg_entry s - px) * close_qty
             else realized s);
          pos' = (if prev_pos > 0 then prev_pos - close_qty else prev_pos + close_qty);
          remaining = \<bar>delta\<bar> - close_qty
      in if remaining > 0
         then s\<lparr>realized := realized',
                pos := (if delta > 0 then 1 else - 1) * remaining,
                avg_entry := px\<rparr>
         else s\<lparr>realized := realized', pos := pos'\<rparr>)"

text \<open>One iteration of \<open>for f in fills_sorted\<close>.\<close>

definition track_fill :: "pos_state \<Rightarrow> ExecutionFill \<Rightarrow> pos_state" where
  "track_fill s f =
     (let s1 = add_reported s f;
          px = price f;
          delta = fill_delta f;
          s2 = (if same_direction (pos s1) delta
                then extend_position s1 px delta
                else reduce_or_reverse s1 px delta)
      in s2\<lparr>max_abs_pos := max (max_abs_pos s2) \<bar>pos s2\<bar>\<rparr>)"

definition track_fills :: "ExecutionFill list \<Rightarrow> pos_state" where
  "track_fills fs = foldl track_fill pos_state_init fs"

text \<open>\<open>max(notionals) if notionals else None\<close>\<close>

fun max_opt :: "rat list \<Rightarrow> rat option" where
  "max_opt [] = None"
| "max_opt (x # xs) = Some (foldl max x xs)"

text \<open>The nested function \<open>wavg_price_by_trade_side\<close>.\<close>

definition wavg_price_by_trade_side :: "ExecutionFill list \<Rightarrow> TradeSide \<Rightarrow> rat option" where
  "wavg_price_by_trade_side fills_sorted tside =
     (let sel = filter (\<lambda>f. trade_side f = tside) fills_sorted;
          px_qty = sum_list (map (\<lambda>f. price f * amount f) sel);
          qty = sum_list (map amount sel)
      in if qty = 0 then None else Some (px_qty / qty))"

text \<open>
  \<open>int((exit_ts - entry_ts).total_seconds())\<close>: the difference of two instants in whole
  seconds, truncated towards zero.
\<close>

definition whole_seconds :: "int \<Rightarrow> int" where
  "whole_seconds d = (if 0 \<le> d then d div 1000000 else - ((- d) div 1000000))"

text \<open>
  The value of \<open>realized_pnl\<close> inside \<open>if self.status == "closed"\<close>:
  \<open>base_realized = realized_reported if has_reported else realized\<close>, then
  \<open>base_realized - total_fees + total_funding\<close>.
\<close>

definition base_realized :: "pos_state \<Rightarrow> rat" where
  "base_realized s = (if has_reported s then realized_reported s else realized s)"

text \<open>
  \<open>if x and x != 0: pnl / x * 100\<close>, for \<open>x\<close> an optional Decimal (a Decimal is falsy
  exactly when it is zero).
\<close>

definition pct_of :: "rat \<Rightarrow> rat option \<Rightarrow> rat option" where
  "pct_of pnl x =
     (case x of
        None \<Rightarrow> None
      | Some d \<Rightarrow> if d \<noteq> 0 then Some (pnl / d * 100) else None)"

text \<open>
  The body of \<open>recompute\<close> after the early return, as a function of what it reads:
  the fills (non-empty), the funding payments, the status and the two snapshot fields of
  the old metrics.
\<close>

definition compute_metrics ::
  "ExecutionFill list \<Rightarrow> (int \<times> rat) list \<Rightarrow> Status \<Rightarrow> rat option \<Rightarrow> rat option \<Rightarrow> TradeMetrics"
where
  "compute_metrics fs funding st margin equity =
     (let fills_sorted = sort_key ts fs;
          entry = ts (hd fills_sorted);
          exit = (if st = status_closed then Some (ts (last fills_sorted)) else None);
          holding = map_option (\<lambda>x. whole_seconds (x - entry)) exit;
          total_fees = sum_list (map fee_cost fills_sorted);
          total_funding = sum_list (map snd funding);
          max_abs_notional = max_opt (map (\<lambda>f. \<bar>amount f * price f\<bar>) fills_sorted);
          s = track_fills fills_sorted;
          max_abs_amount = (if max_abs_pos s \<noteq> 0 then Some (max_abs_pos s) else None);
          entry_avg = wavg_price_by_trade_side fills_sorted TS_open;
          exit_avg = (if st = status_closed
                      then wavg_price_by_trade_side fills_sorted TS_close else None);
          realized_pnl = (if st = status_closed
                          then Some (base_realized s - total_fees + total_funding) else None);
          realized_pct = (case realized_pnl of None \<Rightarrow> None
                          | Some p \<Rightarrow> pct_of p max_abs_notional);
          realized_pct_of_margin = (case realized_pnl of None \<Rightarrow> None
                                    | Some p \<Rightarrow> pct_of p margin)
      in \<lparr>entry_ts = Some entry, exit_ts = exit, holding_seconds = holding,
          entry_avg_price = entry_avg, exit_avg_price = exit_avg,
          max_abs_position_amount = max_abs_amount,
          max_abs_notional_usdt = max_abs_notional,
          realized_pnl_usdt = realized_pnl, realized_pnl_pct = realized_pct,
          realized_pnl_pct_of_available_margin = realized_pct_of_margin,
          total_fees_usdt = Some total_fees, total_funding_usdt = Some total_funding,
          available_margin_usdt_at_entry = margin, equity_usdt_at_entry = equity,
          fills_count = length fills_sorted,
          adds_count = length (filter (\<lambda>f. trade_side f = TS_open) fills_sorted),
          reductions_count = length (filter (\<lambda>f. trade_side f = TS_close) fills_sorted)\<rparr>)"

text \<open>
  \<open>recompute\<close> mutates the lifecycle in place; the model returns the updated lifecycle.
  With no fills the metrics are replaced by \<open>TradeMetrics(fills_count=0)\<close> and the method
  returns; otherwise the metrics are rebuilt and the planned stop is copied into the risk
  metrics.
\<close>

definition recompute :: "TradeLifecycle \<Rightarrow> TradeLifecycle" where
  "recompute lc =
     (if fills lc = [] then lc\<lparr>metrics := TradeMetrics_default\<rparr>
      else lc\<lparr>metrics :=
                 compute_metrics (fills lc) (funding_payments_usdt lc) (status lc)
                   (available_margin_usdt_at_entry (metrics lc))
                   (equity_usdt_at_entry (metrics lc)),
               risk := (risk lc)\<lparr>planned_stop_loss := plan_stop_loss (plan lc)\<rparr>\<rparr>)"

section \<open>Lifecycle aggregation (pipeline/aggregate\_lifecycles.py)\<close>

text \<open>
  The aggregator formats timestamps with \<open>datetime.isoformat\<close>, a function of the Python
  standard library; it is the parameter \<open>isoformat\<close> of the model.
  The local variables of \<open>aggregate_fills_to_lifecycles\<close> that its nested functions
  update form the state record.
\<close>

record agg_state =
  qty_by_side :: "PositionSide \<Rightarrow> rat"
  current_by_side :: "PositionSide \<Rightarrow> TradeLifecycle option"
  out_lifecycles :: "TradeLifecycle list"
  out_warnings :: "string list"

record AggregationResult =
  lifecycles :: "TradeLifecycle list"
  warnings :: "string list"

definition agg_state_init :: agg_state where
  "agg_state_init =
     \<lparr>qty_by_side = (\<lambda>_. 0), current_by_side = (\<lambda>_. None),
      out_lifecycles = [], out_warnings = []\<rparr>"

definition ps_value :: "PositionSide \<Rightarrow> string" where
  "ps_value ps = (case ps of PS_long \<Rightarrow> ''long'' | PS_short \<Rightarrow> ''short''
                  | PS_unknown \<Rightarrow> ''unknown'')"

text \<open>The nested function \<open>_start\<close>.\<close>

definition agg_start ::
  "(int \<Rightarrow> string) \<Rightarrow> string \<Rightarrow> string \<Rightarrow> PositionSide \<Rightarrow> ExecutionFill \<Rightarrow> TradeLifecycle"
where
  "agg_start isoformat exch symb ps f =
     \<lparr>lifecycle_id = exch @ '':'' @ symb @ '':'' @ ps_value ps @ '':'' @ isoformat (ts f),
      exchange = exch, symbol = symb, position_side = ps, fills = [f],
      funding_payments_usdt = [], plan = TradePlan_default,
      metrics = TradeMetrics_default, risk = RiskMetrics_default,
      status = status_open\<rparr>"

text \<open>The nested function \<open>_append\<close>.\<close>

definition agg_append ::
  "(int \<Rightarrow> string) \<Rightarrow> string \<Rightarrow> string \<Rightarrow> agg_state \<Rightarrow> PositionSide \<Rightarrow> ExecutionFill \<Rightarrow> rat
     \<Rightarrow> agg_state"
where
  "agg_append isoformat exch symb st ps f delta_qty =
     (let prev = qty_by_side st ps;
          q = prev + delta_qty;
          st1 = st\<lparr>qty_by_side := (qty_by_side st)(ps := q)\<rparr>
      in case current_by_side st ps of
           None \<Rightarrow>
             if prev = 0 \<and> delta_qty > 0 \<and> q > 0 then
               st1\<lparr>current_by_side :=
                      (current_by_side st1)(ps := Some (agg_start isoformat exch symb ps f))\<rparr>
             else if delta_qty < 0 then
               st1\<lparr>out_warnings := out_warnings st1 @
                      [''Symbol '' @ symb @ '' ('' @ ps_value ps @ ''): saw close before open at ''
                         @ isoformat (ts f) @ '' (window incomplete).''],
                    out_lifecycles := out_lifecycles st1 @
                      [recompute ((agg_start isoformat exch symb ps f)\<lparr>status := status_closed\<rparr>)],
                    current_by_side := (current_by_side st1)(ps := None),
                    qty_by_side := (qty_by_side st1)(ps := 0)\<rparr>
             else
               st1\<lparr>out_warnings := out_warnings st1 @
                      [''Symbol '' @ symb @ '' ('' @ ps_value ps
                         @ ''): lifecycle started mid-position at '' @ isoformat (ts f) @ ''.''],
                    current_by_side :=
                      (current_by_side st1)(ps := Some (agg_start isoformat exch symb ps f))\<rparr>
         | Some cur \<Rightarrow>
             (let cur1 = cur\<lparr>fills := fills cur @ [f]\<rparr>
              in if q \<le> 0 then
                   st1\<lparr>out_lifecycles := out_lifecycles st1 @
                          [recompute (cur1\<lparr>status := status_closed\<rparr>)],
                        current_by_side := (current_by_side st1)(ps := None),
                        qty_by_side := (qty_by_side st1)(ps := 0)\<rparr>
                 else st1\<lparr>current_by_side := (current_by_side st1)(ps := Some cur1)\<rparr>))"

text \<open>
  The signed quantity that the main loop passes to \<open>_append\<close> for a fill: \<open>+amount\<close> for
  an open, \<open>-amount\<close> for a close, \<open>+amount\<close> (with a warning) when the tag is unknown.
\<close>

definition agg_delta :: "ExecutionFill \<Rightarrow> rat" where
  "agg_delta f = (case trade_side f of TS_open \<Rightarrow> amount f | TS_close \<Rightarrow> - amount f
                  | TS_unknown \<Rightarrow> amount f)"

text \<open>One iteration of \<open>for f in fs\<close>.\<close>

definition agg_step ::
  "(int \<Rightarrow> string) \<Rightarrow> string \<Rightarrow> string \<Rightarrow> agg_state \<Rightarrow> ExecutionFill \<Rightarrow> agg_state"
where
  "agg_step isoformat exch symb st f =
     (case trade_side f of
        TS_open \<Rightarrow> agg_append isoformat exch symb st (hold_side f) f (amount f)
      | TS_close \<Rightarrow> agg_append isoformat exch symb st (hold_side f) f (- amount f)
      | TS_unknown \<Rightarrow>
          agg_append isoformat exch symb
            (st\<lparr>out_warnings := out_warnings st @
                  [''Symbol '' @ symb
                     @ '': missing tradeSide; cannot reliably aggregate (hedge_mode).'']\<rparr>)
            (hold_side f) f (amount f))"

text \<open>
  One iteration of the final \<open>for ps, cur in current_by_side.items()\<close>; the dictionary
  keeps its insertion order long, short, unknown.
\<close>

definition agg_flush :: "agg_state \<Rightarrow> PositionSide \<Rightarrow> agg_state" where
  "agg_flush st ps =
     (case current_by_side st ps of
        None \<Rightarrow> st
      | Some cur \<Rightarrow>
          st\<lparr>out_lifecycles := out_lifecycles st @ [recompute (cur\<lparr>status := status_open\<rparr>)]\<rparr>)"

definition aggregate_fills_to_lifecycles ::
  "(int \<Rightarrow> string) \<Rightarrow> string \<Rightarrow> string \<Rightarrow> ExecutionFill list \<Rightarrow> AggregationResult"
where
  "aggregate_fills_to_lifecycles isoformat exch symb fills_in =
     (let fs = sort_key ts fills_in;
          st = foldl (agg_step isoformat exch symb) agg_state_init fs;
          st' = foldl agg_flush st [PS_long, PS_short, PS_unknown]
      in \<lparr>lifecycles = out_lifecycles st', warnings = out_warnings st'\<rparr>)"

text \<open>
  The bucket's signed running quantity of a list of fills, by the aggregator's accounting
  and starting at 0.
\<close>

definition running_qty :: "ExecutionFill list \<Rightarrow> rat" where
  "running_qty fs = sum_list (map agg_delta fs)"

section \<open>Event detection (analysis/events.py)\<close>

datatype EventLevel = P0 | P1 | P2

datatype TradeEventType =
    open_completed | close_completed | stop_loss_triggered | big_loss_pct_equity
  | consecutive_losses | high_leverage_used | night_trading_us_eastern

datatype EvidenceFillRef =
  EvidenceFillRef (ref_ts: int) (ref_side: Side) (ref_price: rat) (ref_amount: rat)
    (ref_trade_id: "string option") (ref_order_id: "string option")

text \<open>
  The fields of a converted \<open>datetime\<close> in local time. The conversion itself
  (\<open>ZoneInfo("America/New_York")\<close>, \<open>astimezone\<close>) belongs to the Python standard library
  and is the parameter \<open>to_eastern\<close> of the detector; it returns \<open>None\<close> where the
  library is missing or the conversion raises.
\<close>

record local_time =
  hour :: int
  minute :: int
  second :: int
  microsecond :: int

text \<open>
  The evidence dictionary of an event, one constructor for each rule, holding the values
  that the source stores under its keys (numbers as numbers, where the source stores
  their \<open>str\<close>).
\<close>

datatype Evidence =
    FillEvidence EvidenceFillRef
  | StopLossEvidence rat EvidenceFillRef string
  | BigLossEvidence rat rat "string option" rat rat
  | HighLeverageEvidence rat rat "string option" rat rat
  | NightTradingEvidence int local_time "(int \<times> int) \<times> (int \<times> int)"
  | ConsecutiveLossesEvidence int "(string \<times> string \<times> PositionSide \<times> int option \<times> rat option) list"

text \<open>
  An event. The identifier \<open><lifecycle_id>:<event_type>[:<index>]\<close> is kept as its three
  components; the catalogue texts \<open>name_zh\<close>, \<open>definition_zh\<close>, \<open>logic_zh\<close> are constants
  of the event type and are left out.
\<close>

record TradeEvent =
  event_id :: "string \<times> TradeEventType \<times> int option"
  event_type :: TradeEventType
  level :: EventLevel
  ev_lifecycle_id :: string
  ev_symbol :: string
  ev_position_side :: PositionSide
  occurred_at :: int
  evidence :: Evidence

text \<open>The keyword parameters of the detectors; the night window is given parsed.\<close>

record DetectConfig =
  big_loss_threshold_pct_equity :: rat
  consecutive_losses_n :: int
  high_leverage_threshold :: rat
  us_eastern_night_window :: "(int \<times> int) \<times> (int \<times> int)"

definition DetectConfig_default :: DetectConfig where
  "DetectConfig_default =
     \<lparr>big_loss_threshold_pct_equity = 5, consecutive_losses_n = 3,
      high_leverage_threshold = 10, us_eastern_night_window = ((22, 0), (6, 0))\<rparr>"

definition fill_ref :: "ExecutionFill \<Rightarrow> EvidenceFillRef" where
  "fill_ref f = EvidenceFillRef (ts f) (side f) (price f) (amount f) (trade_id f) (order_id f)"

definition mk_event ::
  "TradeLifecycle \<Rightarrow> TradeEventType \<Rightarrow> EventLevel \<Rightarrow> int \<Rightarrow> Evidence \<Rightarrow> TradeEvent"
where
  "mk_event lc t l when_ts ev =
     \<lparr>event_id = (lifecycle_id lc, t, None), event_type = t, level = l,
      ev_lifecycle_id = lifecycle_id lc, ev_symbol = symbol lc,
      ev_position_side = position_side lc, occurred_at = when_ts, evidence = ev\<rparr>"

text \<open>\<open>a or b\<close> on optional Decimals: \<open>a\<close> unless it is \<open>None\<close> or zero.\<close>

definition py_or :: "rat option \<Rightarrow> rat option \<Rightarrow> rat option" where
  "py_or a b = (case a of None \<Rightarrow> b | Some x \<Rightarrow> if x \<noteq> 0 then Some x else b)"

text \<open>\<open>a or b\<close> where \<open>a\<close> is an optional datetime (a datetime is always truthy).\<close>

definition ts_or :: "int option \<Rightarrow> int \<Rightarrow> int" where
  "ts_or a b = (case a of None \<Rightarrow> b | Some x \<Rightarrow> x)"

text \<open>
  The loop that looks for the trigger fill of the stop-loss rule: skip the fills that are
  not on the exit side, stop at the first one whose price crosses the stop.
\<close>

definition stop_trigger_fill :: "PositionSide \<Rightarrow> rat \<Rightarrow> ExecutionFill list \<Rightarrow> ExecutionFill option" where
  "stop_trigger_fill ps planned_sl fs =
     (let entry_side = (if ps = PS_long then buy else sell);
          exit_side = (if entry_side = buy then sell else buy)
      in find (\<lambda>f. side f = exit_side \<and>
                    ((ps = PS_long \<and> price f \<le> planned_sl) \<or>
                     (ps = PS_short \<and> price f \<ge> planned_sl))) fs)"

definition stop_loss_events :: "TradeLifecycle \<Rightarrow> ExecutionFill list \<Rightarrow> TradeEvent list" where
  "stop_loss_events lc fs =
     (case plan_stop_loss (plan lc) of
        None \<Rightarrow> []
      | Some planned_sl \<Rightarrow>
          (case stop_trigger_fill (position_side lc) planned_sl fs of
             None \<Rightarrow> []
           | Some trigger_fill \<Rightarrow>
               [mk_event lc stop_loss_triggered P0 (ts trigger_fill)
                  (StopLossEvidence planned_sl (fill_ref trigger_fill)
                     (if position_side lc = PS_long then ''price <= planned_stop_loss''
                      else ''price >= planned_stop_loss''))]))"

definition base_balance_of :: "TradeLifecycle \<Rightarrow> rat option" where
  "base_balance_of lc =
     py_or (available_margin_usdt_at_entry (metrics lc)) (equity_usdt_at_entry (metrics lc))"

definition base_balance_source :: "TradeLifecycle \<Rightarrow> string option" where
  "base_balance_source lc =
     (if available_margin_usdt_at_entry (metrics lc) \<noteq> None
      then Some ''available_margin_usdt_at_entry''
      else if equity_usdt_at_entry (metrics lc) \<noteq> None then Some ''equity_usdt_at_entry''
      else None)"

definition big_loss_events :: "DetectConfig \<Rightarrow> TradeLifecycle \<Rightarrow> ExecutionFill \<Rightarrow> TradeEvent list" where
  "big_loss_events cfg lc last_fill =
     (case (realized_pnl_usdt (metrics lc), base_balance_of lc) of
        (Some pnl, Some base_balance) \<Rightarrow>
          if base_balance > 0 then
            (let loss_pct = (\<bar>pnl\<bar> / base_balance) * 100
             in if pnl < 0 \<and> loss_pct \<ge> big_loss_threshold_pct_equity cfg then
                  [mk_event lc big_loss_pct_equity P0
                     (ts_or (exit_ts (metrics lc)) (ts last_fill))
                     (BigLossEvidence pnl base_balance (base_balance_source lc) loss_pct
                        (big_loss_threshold_pct_equity cfg))]
                else [])
          else []
      | _ \<Rightarrow> [])"

definition high_leverage_events :: "DetectConfig \<Rightarrow> TradeLifecycle \<Rightarrow> ExecutionFill \<Rightarrow> TradeEvent list" where
  "high_leverage_events cfg lc first_fill =
     (case (max_abs_notional_usdt (metrics lc), base_balance_of lc) of
        (Some notional, Some base_balance) \<Rightarrow>
          if base_balance > 0 then
            (let effective_lev = notional / base_balance
             in if effective_lev \<ge> high_leverage_threshold cfg then
                  [mk_event lc high_leverage_used P1
                     (ts_or (entry_ts (metrics lc)) (ts first_fill))
                     (HighLeverageEvidence notional base_balance (base_balance_source lc)
                        effective_lev (high_leverage_threshold cfg))]
                else [])
          else []
      | _ \<Rightarrow> [])"

text \<open>The two comparisons of the night-trading rule, on the local hour and minute.\<close>

definition in_late :: "(int \<times> int) \<Rightarrow> local_time \<Rightarrow> bool" where
  "in_late start lt \<longleftrightarrow>
     hour lt > fst start \<or> (hour lt = fst start \<and> minute lt \<ge> snd start)"

definition in_early :: "(int \<times> int) \<Rightarrow> local_time \<Rightarrow> bool" where
  "in_early fin lt \<longleftrightarrow>
     hour lt < fst fin \<or> (hour lt = fst fin \<and> minute lt \<le> snd fin)"

definition night_events ::
  "(int \<Rightarrow> local_time option) \<Rightarrow> DetectConfig \<Rightarrow> TradeLifecycle \<Rightarrow> ExecutionFill \<Rightarrow> TradeEvent list"
where
  "night_events to_eastern cfg lc first_fill =
     (let entry = ts_or (entry_ts (metrics lc)) (ts first_fill)
      in case to_eastern entry of
           None \<Rightarrow> []
         | Some entry_eastern \<Rightarrow>
             (let w = us_eastern_night_window cfg
              in if in_late (fst w) entry_eastern \<or> in_early (snd w) entry_eastern then
                   [mk_event lc night_trading_us_eastern P1 entry
                      (NightTradingEvidence entry entry_eastern w)]
                 else []))"

text \<open>
  \<open>detect_events_for_lifecycle\<close>. It calls \<open>lc.recompute()\<close>, so the model returns the
  updated lifecycle together with the events.
\<close>

definition detect_events_for_lifecycle ::
  "(int \<Rightarrow> local_time option) \<Rightarrow> DetectConfig \<Rightarrow> TradeLifecycle \<Rightarrow> TradeLifecycle \<times> TradeEvent list"
where
  "detect_events_for_lifecycle to_eastern cfg lc0 =
     (if fills lc0 = [] then (lc0, [])
      else
        (let lc = recompute lc0;
             fs = sort_key ts (fills lc);
             first_fill = hd fs;
             last_fill = last fs
         in (lc,
             [mk_event lc open_completed P2 (ts first_fill) (FillEvidence (fill_ref first_fill))]
             @ (if status lc = status_closed
                then [mk_event lc close_completed P2 (ts last_fill)
                        (FillEvidence (fill_ref last_fill))]
                else [])
             @ stop_loss_events lc fs
             @ big_loss_events cfg lc last_fill
             @ high_leverage_events cfg lc first_fill
             @ night_events to_eastern cfg lc first_fill)))"

text \<open>The cross-lifecycle part of \<open>detect_events_for_lifecycles\<close>.\<close>

definition closed_sorted_of :: "TradeLifecycle list \<Rightarrow> TradeLifecycle list" where
  "closed_sorted_of lcs =
     sort_key (\<lambda>x. the (exit_ts (metrics x)))
       (filter (\<lambda>lc. exit_ts (metrics lc) \<noteq> None \<and> realized_pnl_usdt (metrics lc) \<noteq> None) lcs)"

definition is_loss :: "TradeLifecycle \<Rightarrow> bool" where
  "is_loss w \<longleftrightarrow> (case py_or (realized_pnl_usdt (metrics w)) (Some 0) of
                    Some p \<Rightarrow> p < 0 | None \<Rightarrow> False)"

definition consecutive_losses_events :: "int \<Rightarrow> TradeLifecycle list \<Rightarrow> TradeEvent list" where
  "consecutive_losses_events n lcs =
     (let closed_sorted = closed_sorted_of lcs
      in if n \<ge> 2 \<and> int (length closed_sorted) \<ge> n then
           (let window = drop (length closed_sorted - nat n) closed_sorted
            in if list_all is_loss window then
                 (let last_lc = last window
                  in [\<lparr>event_id = (lifecycle_id last_lc, consecutive_losses, Some n),
                       event_type = consecutive_losses, level = P0,
                       ev_lifecycle_id = lifecycle_id last_lc, ev_symbol = symbol last_lc,
                       ev_position_side = position_side last_lc,
                       occurred_at = the (exit_ts (metrics last_lc)),
                       evidence = ConsecutiveLossesEvidence n
                         (map (\<lambda>w. (lifecycle_id w, symbol w, position_side w,
                                     exit_ts (metrics w), realized_pnl_usdt (metrics w)))
                            window)\<rparr>])
               else [])
         else [])"

definition detect_events_for_lifecycles ::
  "(int \<Rightarrow> local_time option) \<Rightarrow> DetectConfig \<Rightarrow> TradeLifecycle list \<Rightarrow> TradeEvent list"
where
  "detect_events_for_lifecycles to_eastern cfg lifecycles_in =
     (let lcs = map recompute lifecycles_in;
          rs = map (detect_events_for_lifecycle to_eastern cfg) lcs;
          lcs' = map fst rs;
          out = concat (map snd rs)
      in out @ consecutive_losses_events (consecutive_losses_n cfg) lcs')"

section \<open>Discipline score (reports/generator.py)\<close>

record Breakdown =
  bd_base :: int
  bd_P0 :: int
  bd_P1 :: int
  bd_P2 :: int

record DisciplineScore =
  score :: int
  breakdown :: Breakdown

text \<open>One iteration of \<open>for e in events\<close>, on the pair of \<open>score\<close> and \<open>breakdown\<close>.\<close>

definition score_step :: "int \<times> Breakdown \<Rightarrow> TradeEvent \<Rightarrow> int \<times> Breakdown" where
  "score_step sb e =
     (case sb of (s, b) \<Rightarrow>
        if level e = P0 then (s - 20, b\<lparr>bd_P0 := bd_P0 b - 20\<rparr>)
        else if level e = P1 then (s - 8, b\<lparr>bd_P1 := bd_P1 b - 8\<rparr>)
        else (s, b\<lparr>bd_P2 := bd_P2 b + 0\<rparr>))"

definition compute_discipline_score :: "TradeEvent list \<Rightarrow> DisciplineScore" where
  "compute_discipline_score events =
     (case foldl score_step (100, \<lparr>bd_base = 100, bd_P0 = 0, bd_P1 = 0, bd_P2 = 0\<rparr>) events of
        (s, b) \<Rightarrow> \<lparr>score = (if s < 0 then 0 else s), breakdown = b\<rparr>)"

section \<open>Reference statements and concrete inputs\<close>

text \<open>
  The quantities that the specification of the metrics engine names, written from its
  words, to be compared with what \<open>recompute\<close> stores.
\<close>

text \<open>The sum of the exchange-reported profit values of the fills that carry one.\<close>

definition reported_total :: "ExecutionFill list \<Rightarrow> rat" where
  "reported_total fs =
     sum_list (map (\<lambda>f. case reported_profit_usdt f of None \<Rightarrow> 0 | Some p \<Rightarrow> p) fs)"

definition any_reported :: "ExecutionFill list \<Rightarrow> bool" where
  "any_reported fs \<longleftrightarrow> list_ex (\<lambda>f. reported_profit_usdt f \<noteq> None) fs"

text \<open>
  The realized PnL of the precedence rule: the reported sum when any fill carries a
  reported profit, else the internal running total; minus all fees, plus all funding.
\<close>

definition spec_realized_pnl :: "TradeLifecycle \<Rightarrow> rat" where
  "spec_realized_pnl lc =
     (if any_reported (fills lc) then reported_total (fills lc)
      else realized (track_fills (sort_key ts (fills lc))))
     - sum_list (map fee_cost (fills lc))
     + sum_list (map snd (funding_payments_usdt lc))"

text \<open>
  The snapshot "available margin preferred, equity as the fallback", and the percentage
  of the realized PnL over it.
\<close>

definition spec_snapshot :: "TradeMetrics \<Rightarrow> rat option" where
  "spec_snapshot m =
     (case available_margin_usdt_at_entry m of Some a \<Rightarrow> Some a
      | None \<Rightarrow> equity_usdt_at_entry m)"

definition spec_pct_of_snapshot :: "TradeLifecycle \<Rightarrow> rat option" where
  "spec_pct_of_snapshot lc =
     map_option (\<lambda>s. spec_realized_pnl lc / s * 100) (spec_snapshot (metrics lc))"

text \<open>Constructors for concrete fills and lifecycles, with the defaults of the models.\<close>

definition mk_fill ::
  "int \<Rightarrow> Side \<Rightarrow> rat \<Rightarrow> rat \<Rightarrow> TradeSide \<Rightarrow> PositionSide \<Rightarrow> rat option \<Rightarrow> ExecutionFill"
where
  "mk_fill t sd px qty tside hs rp =
     \<lparr>ts = t, side = sd, price = px, amount = qty, fee_cost = 0, trade_side = tside,
      reported_profit_usdt = rp, hold_side = hs, trade_id = None, order_id = None\<rparr>"

definition mk_lifecycle ::
  "string \<Rightarrow> PositionSide \<Rightarrow> ExecutionFill list \<Rightarrow> Status \<Rightarrow> TradeLifecycle"
where
  "mk_lifecycle i ps fs st =
     \<lparr>lifecycle_id = i, exchange = ''bitget'', symbol = ''BTC/USDT:USDT'', position_side = ps,
      fills = fs, funding_payments_usdt = [], plan = TradePlan_default,
      metrics = TradeMetrics_default, risk = RiskMetrics_default, status = st\<rparr>"

text \<open>
  A closed long: buy 10 at 100, sell 10 at 110 with a reported profit of 95 and a fee of
  2, and one funding payment of -3.
\<close>

definition closed_reported_lc :: TradeLifecycle where
  "closed_reported_lc =
     (mk_lifecycle ''a'' PS_long
        [mk_fill 1 buy 100 10 TS_open PS_long None,
         (mk_fill 2 sell 110 10 TS_close PS_long (Some 95))\<lparr>fee_cost := 2\<rparr>] status_closed)
     \<lparr>funding_payments_usdt := [(1, - 3)]\<rparr>"

text \<open>An open long with a single fill.\<close>

definition open_single_lc :: TradeLifecycle where
  "open_single_lc =
     mk_lifecycle ''b'' PS_long [mk_fill 1 buy 100 10 TS_open PS_long None] status_open"




text \<open>
  A closed long with a profit of 100 whose metrics carry an equity snapshot of 1000 and no
  available-margin snapshot.
\<close>

definition equity_only_lc :: TradeLifecycle where
  "equity_only_lc =
     (mk_lifecycle ''c'' PS_long
        [mk_fill 1 buy 100 10 TS_open PS_long None,
         mk_fill 2 sell 110 10 TS_close PS_long None] status_closed)
     \<lparr>metrics := TradeMetrics_default\<lparr>equity_usdt_at_entry := Some 1000\<rparr>\<rparr>"

text \<open>
  A lifecycle without fills, with both snapshots attached and a planned stop of 95; and
  the same lifecycle with one fill.
\<close>

definition empty_lc :: TradeLifecycle where
  "empty_lc =
     (mk_lifecycle ''d'' PS_long [] status_open)
     \<lparr>plan := TradePlan_default\<lparr>plan_stop_loss := Some 95\<rparr>,
      metrics := TradeMetrics_default\<lparr>available_margin_usdt_at_entry := Some 500,
                                     equity_usdt_at_entry := Some 1000\<rparr>\<rparr>"

definition one_fill_lc :: TradeLifecycle where
  "one_fill_lc = empty_lc\<lparr>fills := [mk_fill 1 buy 100 10 TS_open PS_long None]\<rparr>"

text \<open>
  The lifecycle \<open>closed_reported_lc\<close> under another identity, plan and risk record.
\<close>

definition closed_reported_lc' :: TradeLifecycle where
  "closed_reported_lc' =
     closed_reported_lc\<lparr>lifecycle_id := ''z'', position_side := PS_short,
       plan := TradePlan_default\<lparr>plan_stop_loss := Some 1\<rparr>,
       risk := RiskMetrics_default\<lparr>r_multiple := Some 2\<rparr>\<rparr>"

text \<open>The number of events of a severity level.\<close>

definition count_level :: "EventLevel \<Rightarrow> TradeEvent list \<Rightarrow> nat" where
  "count_level l evs = length (filter (\<lambda>e. level e = l) evs)"

text \<open>The score as the specification gives it: 100 minus 20 for each P0 and 8 for each P1, with a floor of 0.\<close>

definition spec_score :: "TradeEvent list \<Rightarrow> int" where
  "spec_score evs = max 0 (100 - 20 * int (count_level P0 evs) - 8 * int (count_level P1 evs))"

text \<open>The event list without the events of a level.\<close>

definition drop_level :: "EventLevel \<Rightarrow> TradeEvent list \<Rightarrow> TradeEvent list" where
  "drop_level l evs = filter (\<lambda>e. level e \<noteq> l) evs"

text \<open>An event of a given level; its other fields are arbitrary.\<close>

definition level_event :: "EventLevel \<Rightarrow> TradeEvent" where
  "level_event l =
     \<lparr>event_id = (''x'', open_completed, None), event_type = open_completed, level = l,
      ev_lifecycle_id = ''x'', ev_symbol = ''BTC/USDT:USDT'', ev_position_side = PS_long,
      occurred_at = 0, evidence = ConsecutiveLossesEvidence 0 []\<rparr>"

text \<open>The events of one type among a list of events.\<close>

definition events_of_type :: "TradeEventType \<Rightarrow> TradeEvent list \<Rightarrow> TradeEvent list" where
  "events_of_type t evs = filter (\<lambda>e. event_type e = t) evs"

text \<open>A fill on the exit side whose price crosses the stop: a sell at or below the stop for a long, a buy at or above the stop for a short.\<close>

definition crosses_stop :: "PositionSide \<Rightarrow> rat \<Rightarrow> ExecutionFill \<Rightarrow> bool" where
  "crosses_stop ps sl f \<longleftrightarrow>
     (ps = PS_long \<and> side f = sell \<and> price f \<le> sl) \<or>
     (ps = PS_short \<and> side f = buy \<and> price f \<ge> sl)"

text \<open>A timezone conversion that always fails.\<close>

definition no_conversion :: "int \<Rightarrow> local_time option" where
  "no_conversion t = None"

text \<open>A closed long with a planned stop of 95; in time order its fills are a buy at 100, a sell at 96 and a sell at 94 (the list itself is not in time order).\<close>

definition stop_example_lc :: TradeLifecycle where
  "stop_example_lc =
     (mk_lifecycle ''s'' PS_long
        [mk_fill 3 sell 94 5 TS_close PS_long None,
         mk_fill 1 buy 100 10 TS_open PS_long None,
         mk_fill 2 sell 96 5 TS_close PS_long None] status_closed)
     \<lparr>plan := TradePlan_default\<lparr>plan_stop_loss := Some 95\<rparr>\<rparr>"

text \<open>The stop-loss events that the detector emits for a lifecycle.\<close>

definition stop_events ::
  "(int \<Rightarrow> local_time option) \<Rightarrow> DetectConfig \<Rightarrow> TradeLifecycle \<Rightarrow> TradeEvent list" where
  "stop_events tz cfg lc =
     events_of_type stop_loss_triggered (snd (detect_events_for_lifecycle tz cfg lc))"

text \<open>The night-trading events that the detector emits for a lifecycle.\<close>

definition night_events_of ::
  "(int \<Rightarrow> local_time option) \<Rightarrow> DetectConfig \<Rightarrow> TradeLifecycle \<Rightarrow> TradeEvent list" where
  "night_events_of tz cfg lc =
     events_of_type night_trading_us_eastern (snd (detect_events_for_lifecycle tz cfg lc))"

text \<open>The entry timestamp: the timestamp of the first fill in time order.\<close>

definition entry_instant :: "TradeLifecycle \<Rightarrow> int" where
  "entry_instant lc = ts (hd (sort_key ts (fills lc)))"

text \<open>The local time of day in minutes, from the hour and the minute.\<close>

definition minute_of_day :: "local_time \<Rightarrow> int" where
  "minute_of_day lt = 60 * hour lt + minute lt"

text \<open>An instance of the conversion: US-Eastern standard time, five hours behind UTC.\<close>

definition eastern_standard_time :: "int \<Rightarrow> local_time option" where
  "eastern_standard_time t =
     (let s = (t div 1000000 - 18000) mod 86400
      in Some \<lparr>hour = s div 3600, minute = (s mod 3600) div 60, second = s mod 60,
               microsecond = t mod 1000000\<rparr>)"

text \<open>An open lifecycle whose only fill is at the given instant.\<close>

definition entry_lc :: "int \<Rightarrow> TradeLifecycle" where
  "entry_lc t = mk_lifecycle ''n'' PS_long [mk_fill t buy 100 1 TS_open PS_long None] status_open"

text \<open>The consecutive-losses events that the batch detector emits.\<close>

definition consecutive_events ::
  "(int \<Rightarrow> local_time option) \<Rightarrow> DetectConfig \<Rightarrow> TradeLifecycle list \<Rightarrow> TradeEvent list" where
  "consecutive_events tz cfg lcs =
     events_of_type consecutive_losses (detect_events_for_lifecycles tz cfg lcs)"

text \<open>The realized PnL stored in the metrics of a lifecycle.\<close>

definition pnl_of :: "TradeLifecycle \<Rightarrow> rat option" where
  "pnl_of lc = realized_pnl_usdt (metrics lc)"

text \<open>A closed lifecycle with one fill at the given instant, whose reported profit is the given PnL.\<close>

definition pnl_lc :: "string \<Rightarrow> int \<Rightarrow> rat \<Rightarrow> TradeLifecycle" where
  "pnl_lc i t p =
     mk_lifecycle i PS_long [mk_fill t sell 100 1 TS_close PS_long (Some p)] status_closed"

text \<open>The default configuration with another window size.\<close>

definition config_n :: "int \<Rightarrow> DetectConfig" where
  "config_n n = DetectConfig_default\<lparr>consecutive_losses_n := n\<rparr>"

text \<open>Lifecycles whose PnLs by exit time are -1, -2, -3, +1, -4 (the list is not in exit order).\<close>

definition five_lcs :: "TradeLifecycle list" where
  "five_lcs = [pnl_lc ''l4'' 4 1, pnl_lc ''l1'' 1 (- 1), pnl_lc ''l5'' 5 (- 4),
               pnl_lc ''l2'' 2 (- 2), pnl_lc ''l3'' 3 (- 3)]"

text \<open>Lifecycles whose PnLs by exit time are +7, -1, -2, -3 (the list is not in exit order).\<close>

definition three_lcs :: "TradeLifecycle list" where
  "three_lcs = [pnl_lc ''l0'' 0 7, pnl_lc ''l3'' 3 (- 3), pnl_lc ''l1'' 1 (- 1),
                pnl_lc ''l2'' 2 (- 2)]"

text \<open>
  The local time of day in microseconds, and the cross-midnight window from 22:00 to 06:00
  with both boundaries included, on the full local time.
\<close>

definition microsecond_of_day :: "local_time \<Rightarrow> int" where
  "microsecond_of_day lt =
     (3600 * hour lt + 60 * minute lt + second lt) * 1000000 + microsecond lt"

definition in_night_window :: "local_time \<Rightarrow> bool" where
  "in_night_window lt \<longleftrightarrow>
     79200000000 \<le> microsecond_of_day lt \<or> microsecond_of_day lt \<le> 21600000000"

text \<open>The fields of a local time are in the ranges of a \<open>datetime\<close>.\<close>

definition valid_local_time :: "local_time \<Rightarrow> bool" where
  "valid_local_time lt \<longleftrightarrow>
     0 \<le> hour lt \<and> hour lt < 24 \<and> 0 \<le> minute lt \<and> minute lt < 60 \<and>
     0 \<le> second lt \<and> second lt < 60 \<and> 0 \<le> microsecond lt \<and> microsecond lt < 1000000"

text \<open>
  The lifecycles that the consecutive-losses rule ranges over: those with both a known
  exit timestamp and a known realized PnL.
\<close>

definition has_exit_and_pnl :: "TradeLifecycle \<Rightarrow> bool" where
  "has_exit_and_pnl lc \<longleftrightarrow>
     exit_ts (metrics lc) \<noteq> None \<and> realized_pnl_usdt (metrics lc) \<noteq> None"

definition exit_time :: "TradeLifecycle \<Rightarrow> int" where
  "exit_time lc = the (exit_ts (metrics lc))"

text \<open>
  \<open>es\<close> is \<open>xs\<close> sorted ascending by exit time: the same lifecycles, in non-decreasing
  order of their exit times, those with equal exit times in the order they have in \<open>xs\<close>.
\<close>

definition sorted_by_exit :: "TradeLifecycle list \<Rightarrow> TradeLifecycle list \<Rightarrow> bool" where
  "sorted_by_exit xs es \<longleftrightarrow>
     mset es = mset xs \<and> sorted (map exit_time es) \<and>
     (\<forall>k \<in> set es. filter (\<lambda>x. exit_time k = exit_time x) es =
                     filter (\<lambda>x. exit_time k = exit_time x) xs)"

definition eligible_by_exit :: "TradeLifecycle list \<Rightarrow> TradeLifecycle list" where
  "eligible_by_exit lcs = sort_key exit_time (filter has_exit_and_pnl lcs)"

text \<open>
  A closed lifecycle that opens at one instant and closes at another, whose closing fill
  reports the given PnL.
\<close>

definition span_lc :: "string \<Rightarrow> int \<Rightarrow> int \<Rightarrow> rat \<Rightarrow> TradeLifecycle" where
  "span_lc i t_in t_out p =
     mk_lifecycle i PS_long
       [mk_fill t_in buy 100 1 TS_open PS_long None,
        mk_fill t_out sell 100 1 TS_close PS_long (Some p)] status_closed"

text \<open>
  A batch in which the order by exit time (C, B, A) is the reverse of the order by entry
  time, together with a lifecycle that is still open.
\<close>

definition crossing_lcs :: "TradeLifecycle list" where
  "crossing_lcs = [span_lc ''A'' 1 10 (- 1), open_single_lc, span_lc ''B'' 2 9 (- 2),
                   span_lc ''C'' 3 4 5]"

text \<open>
  The path of the running quantity of a lifecycle that is still in progress: it is not
  below 0 after the first fill and above 0 after every later fill.
\<close>

definition live_path :: "ExecutionFill list \<Rightarrow> bool" where
  "live_path fs \<longleftrightarrow>
     fs \<noteq> [] \<and> 0 \<le> running_qty (take 1 fs) \<and>
     (\<forall>k \<in> {2..length fs}. 0 < running_qty (take k fs))"

text \<open>
  The path of the running quantity of a lifecycle that was closed: it is at or below 0
  after the last fill, above 0 after every fill between the first and the last, and not
  below 0 after the first fill when that is not the last.
\<close>

definition closed_path :: "ExecutionFill list \<Rightarrow> bool" where
  "closed_path fs \<longleftrightarrow>
     fs \<noteq> [] \<and> running_qty fs \<le> 0 \<and>
     (\<forall>k \<in> {2..<length fs}. 0 < running_qty (take k fs)) \<and>
     (2 \<le> length fs \<longrightarrow> 0 \<le> running_qty (take 1 fs))"

text \<open>
  The invariant of the main loop of the aggregator: an empty bucket has quantity 0, the
  quantity of a bucket in progress is the running quantity of its lifecycle, and every
  lifecycle flushed so far is closed with a closed path.
\<close>

definition agg_inv :: "agg_state \<Rightarrow> bool" where
  "agg_inv st \<longleftrightarrow>
     (\<forall>ps. current_by_side st ps = None \<longrightarrow> qty_by_side st ps = 0) \<and>
     (\<forall>ps cur. current_by_side st ps = Some cur \<longrightarrow>
        qty_by_side st ps = running_qty (fills cur) \<and> live_path (fills cur)) \<and>
     (\<forall>lc \<in> set (out_lifecycles st). status lc = status_closed \<and> closed_path (fills lc))"

text \<open>What holds of an emitted lifecycle, by its status.\<close>

definition emitted_ok :: "TradeLifecycle \<Rightarrow> bool" where
  "emitted_ok lc \<longleftrightarrow>
     (status lc = status_closed \<longrightarrow> closed_path (fills lc)) \<and>
     (status lc = status_open \<longrightarrow> live_path (fills lc))"

text \<open>The invariant of the final loop, which flushes the buckets in progress.\<close>

definition flush_inv :: "agg_state \<Rightarrow> bool" where
  "flush_inv st \<longleftrightarrow>
     (\<forall>ps cur. current_by_side st ps = Some cur \<longrightarrow> live_path (fills cur)) \<and>
     (\<forall>lc \<in> set (out_lifecycles st). emitted_ok lc)"

text \<open>The running quantity after the last fill of a lifecycle.\<close>

definition final_qty :: "TradeLifecycle \<Rightarrow> rat" where
  "final_qty lc = running_qty (fills lc)"

text \<open>
  An instance of the formatting parameter for the concrete runs; the text of a timestamp
  plays no part in the quantities.
\<close>

definition plain_isoformat :: "int \<Rightarrow> string" where
  "plain_isoformat t = (if t < 0 then ''-'' else ''+'')"

text \<open>An open of 10 followed by a close of 15 on the long side (given out of time order).\<close>

definition overshoot_fills :: "ExecutionFill list" where
  "overshoot_fills = [mk_fill 2 sell 110 15 TS_close PS_long None,
                      mk_fill 1 buy 100 10 TS_open PS_long None]"

definition overshoot_result :: AggregationResult where
  "overshoot_result =
     aggregate_fills_to_lifecycles plain_isoformat ''bitget'' ''BTC/USDT:USDT'' overshoot_fills"

text \<open>Two opens on the long side, and the lifecycle left in progress at the end.\<close>

definition scale_in_fills :: "ExecutionFill list" where
  "scale_in_fills = [mk_fill 1 buy 100 10 TS_open PS_long None,
                     mk_fill 2 buy 101 5 TS_open PS_long None]"

definition scale_in_result :: AggregationResult where
  "scale_in_result =
     aggregate_fills_to_lifecycles plain_isoformat ''bitget'' ''BTC/USDT:USDT'' scale_in_fills"

section \<open>Properties of the metrics recomputation\<close>

subsection \<open>Auxiliary facts\<close>

lemma sum_list_insort_key:
  "sum_list (map g (insort_key k x xs)) = (g x :: rat) + sum_list (map g xs)"
  by (induction xs) auto

lemma sum_list_sort_key:
  "sum_list (map g (sort_key k xs)) = (sum_list (map g xs) :: rat)"
  by (induction xs) (auto simp: sum_list_insort_key)

lemma sort_key_Nil_iff: "sort_key k xs = [] \<longleftrightarrow> xs = []"
  by (metis length_sort list.size(3) length_0_conv)

lemma recompute_fills [simp]: "fills (recompute lc) = fills lc"
  by (simp add: recompute_def)

lemma recompute_status [simp]: "status (recompute lc) = status lc"
  by (simp add: recompute_def)

lemma recompute_funding [simp]:
  "funding_payments_usdt (recompute lc) = funding_payments_usdt lc"
  by (simp add: recompute_def)

lemma recompute_plan [simp]: "plan (recompute lc) = plan lc"
  by (simp add: recompute_def)

lemma recompute_identity [simp]:
  "lifecycle_id (recompute lc) = lifecycle_id lc"
  "symbol (recompute lc) = symbol lc"
  "position_side (recompute lc) = position_side lc"
  by (simp_all add: recompute_def)

lemma compute_metrics_margin [simp]:
  "available_margin_usdt_at_entry (compute_metrics fs fu st m e) = m"
  unfolding compute_metrics_def Let_def by (simp only: TradeMetrics.select_convs)

lemma compute_metrics_equity [simp]:
  "equity_usdt_at_entry (compute_metrics fs fu st m e) = e"
  unfolding compute_metrics_def Let_def by (simp only: TradeMetrics.select_convs)

lemma recompute_idem: "recompute (recompute lc) = recompute lc"
  by (cases "fills lc = []") (simp_all add: recompute_def)

text \<open>The reported profit accumulates independently of the position tracking.\<close>

lemma extend_position_reported:
  "realized_reported (extend_position s px d) = realized_reported s"
  "has_reported (extend_position s px d) = has_reported s"
  by (simp_all add: extend_position_def Let_def)

lemma reduce_or_reverse_reported:
  "realized_reported (reduce_or_reverse s px d) = realized_reported s"
  "has_reported (reduce_or_reverse s px d) = has_reported s"
  by (simp_all add: reduce_or_reverse_def Let_def)

lemma track_fill_reported:
  "realized_reported (track_fill s f) = realized_reported (add_reported s f)"
  "has_reported (track_fill s f) = has_reported (add_reported s f)"
  by (simp_all add: track_fill_def Let_def extend_position_reported reduce_or_reverse_reported)

lemma foldl_track_reported:
  "realized_reported (foldl track_fill s fs) = realized_reported s + reported_total fs \<and>
   has_reported (foldl track_fill s fs) = (has_reported s \<or> any_reported fs)"
proof (induction fs arbitrary: s)
  case Nil
  show ?case by (simp add: reported_total_def any_reported_def)
next
  case (Cons f fs)
  show ?case
    by (cases "reported_profit_usdt f")
       (auto simp: Cons.IH track_fill_reported add_reported_def reported_total_def
          any_reported_def)
qed

lemma any_reported_sort: "any_reported (sort_key k fs) = any_reported fs"
  by (simp add: any_reported_def list_ex_iff)

lemma reported_total_sort: "reported_total (sort_key k fs) = reported_total fs"
  by (simp add: reported_total_def sum_list_sort_key)

lemma base_realized_track:
  "base_realized (track_fills fs) =
     (if any_reported fs then reported_total fs else realized (track_fills fs))"
  by (simp add: base_realized_def track_fills_def foldl_track_reported pos_state_init_def)

lemma realized_pnl_compute:
  "realized_pnl_usdt (compute_metrics fs fu st m e) =
     (if st = status_closed
      then Some (base_realized (track_fills (sort_key ts fs))
                 - sum_list (map fee_cost fs) + sum_list (map snd fu))
      else None)"
  unfolding compute_metrics_def Let_def
  by (simp only: TradeMetrics.select_convs sum_list_sort_key)

lemma realized_pnl_closed:
  "st = status_closed \<Longrightarrow>
     realized_pnl_usdt (compute_metrics (fills lc) (funding_payments_usdt lc) st m e) =
       Some (spec_realized_pnl lc)"
  by (simp add: realized_pnl_compute base_realized_track spec_realized_pnl_def
        any_reported_sort reported_total_sort)

subsection \<open>Realized PnL: precedence of the reported profit\<close>

text \<open>
  C1 (as amended). For every closed lifecycle with at least one fill, the realized-PnL
  base computed by \<open>recompute\<close> is the sum of the exchange-reported profit values whenever
  at least one fill carries a reported profit, and otherwise the internally computed
  running total, never a blend; \<open>realized_pnl_usdt\<close> is that base minus the total of all
  fill fees plus the signed sum of all funding payments. For a lifecycle that is open or
  has no fill, \<open>realized_pnl_usdt\<close> is absent.
\<close>

theorem recompute_realized_pnl:
  "(status lc = status_closed \<and> fills lc \<noteq> [] \<longrightarrow>
      realized_pnl_usdt (metrics (recompute lc)) = Some (spec_realized_pnl lc)) \<and>
   (status lc \<noteq> status_closed \<or> fills lc = [] \<longrightarrow>
      realized_pnl_usdt (metrics (recompute lc)) = None)"
proof (intro conjI impI)
  assume "status lc = status_closed \<and> fills lc \<noteq> []"
  then show "realized_pnl_usdt (metrics (recompute lc)) = Some (spec_realized_pnl lc)"
    by (simp add: recompute_def realized_pnl_closed)
next
  assume "status lc \<noteq> status_closed \<or> fills lc = []"
  then show "realized_pnl_usdt (metrics (recompute lc)) = None"
    by (auto simp: recompute_def realized_pnl_compute TradeMetrics_default_def)
qed

lemma spec_pnl_closed_reported: "spec_realized_pnl closed_reported_lc = 90"
  by code_simp

theorem recompute_realized_pnl_witness:
  "status closed_reported_lc = status_closed \<and> fills closed_reported_lc \<noteq> [] \<and>
   realized_pnl_usdt (metrics (recompute closed_reported_lc)) = Some 90 \<and>
   status open_single_lc \<noteq> status_closed \<and>
   realized_pnl_usdt (metrics (recompute open_single_lc)) = None"
proof -
  have a: "status closed_reported_lc = status_closed \<and> fills closed_reported_lc \<noteq> []"
    by (simp add: closed_reported_lc_def mk_lifecycle_def)
  have b: "status open_single_lc \<noteq> status_closed"
    by (simp add: open_single_lc_def mk_lifecycle_def)
  show ?thesis
    using a b recompute_realized_pnl [of closed_reported_lc]
      recompute_realized_pnl [of open_single_lc]
    by (simp add: spec_pnl_closed_reported)
qed

text \<open>
  The claim as stated, for every lifecycle, fails on an open lifecycle: its
  \<open>realized_pnl_usdt\<close> is not the base minus fees plus funding, it is absent.
\<close>

theorem realized_pnl_open_counterexample:
  "realized_pnl_usdt (metrics (recompute open_single_lc))
     \<noteq> Some (spec_realized_pnl open_single_lc)"
  by (simp add: open_single_lc_def mk_lifecycle_def mk_fill_def recompute_def
        realized_pnl_compute)

subsection \<open>Reducing and reversing a position\<close>



lemma add_reported_sel [simp]:
  "pos (add_reported s f) = pos s"
  "avg_entry (add_reported s f) = avg_entry s"
  "realized (add_reported s f) = realized s"
  "max_abs_pos (add_reported s f) = max_abs_pos s"
  by (simp_all add: add_reported_def split: option.splits)







subsection \<open>Idempotence\<close>

text \<open>
  C8. Running \<open>recompute\<close> twice in succession leaves the lifecycle, and so its
  TradeMetrics, as one run does; and the metrics it stores depend only on the fills, the
  funding payments, the status and the two snapshot fields already attached.
\<close>

theorem recompute_idempotent:
  "recompute (recompute lc) = recompute lc \<and>
   metrics (recompute (recompute lc)) = metrics (recompute lc) \<and>
   (fills lc = fills lc' \<and> funding_payments_usdt lc = funding_payments_usdt lc' \<and>
    status lc = status lc' \<and>
    available_margin_usdt_at_entry (metrics lc) = available_margin_usdt_at_entry (metrics lc') \<and>
    equity_usdt_at_entry (metrics lc) = equity_usdt_at_entry (metrics lc')
    \<longrightarrow> metrics (recompute lc) = metrics (recompute lc'))"
  by (simp add: recompute_idem) (simp add: recompute_def)

theorem recompute_idempotent_witness:
  "fills closed_reported_lc = fills closed_reported_lc' \<and>
   closed_reported_lc \<noteq> closed_reported_lc' \<and>
   metrics (recompute closed_reported_lc) = metrics (recompute closed_reported_lc') \<and>
   recompute (recompute closed_reported_lc) = recompute closed_reported_lc"
proof -
  have "lifecycle_id closed_reported_lc \<noteq> lifecycle_id closed_reported_lc'"
    by (simp add: closed_reported_lc'_def closed_reported_lc_def mk_lifecycle_def)
  then have ne: "closed_reported_lc \<noteq> closed_reported_lc'" by metis
  show ?thesis
    using ne recompute_idempotent [of closed_reported_lc closed_reported_lc']
    by (simp add: closed_reported_lc'_def)
qed

subsection \<open>Percentages of the realized PnL\<close>

lemma foldl_max_Max: "foldl max (x::rat) xs = Max (set (x # xs))"
proof -
  have "(\<lambda>a b. max b a) = (max :: rat \<Rightarrow> rat \<Rightarrow> rat)"
    by (intro ext) (rule max.commute)
  then have "foldl max x xs = fold max xs x" by (simp add: foldl_conv_fold)
  then show ?thesis by (simp only: Max.set_eq_fold)
qed

lemma max_opt_Max: "ys \<noteq> [] \<Longrightarrow> max_opt ys = Some (Max (set ys))"
  by (cases ys) (simp_all add: foldl_max_Max del: set_simps)

lemma max_notional_compute:
  "fs \<noteq> [] \<Longrightarrow> max_abs_notional_usdt (compute_metrics fs fu st m e) =
     Some (Max ((\<lambda>f. abs (amount f * price f)) ` set fs))"
  unfolding compute_metrics_def Let_def
  by (simp only: TradeMetrics.select_convs) (simp add: max_opt_Max sort_key_Nil_iff)

lemma pct_compute:
  "realized_pnl_pct (compute_metrics fs fu st m e) =
     (case realized_pnl_usdt (compute_metrics fs fu st m e) of None \<Rightarrow> None
      | Some p \<Rightarrow> pct_of p (max_abs_notional_usdt (compute_metrics fs fu st m e)))"
  "realized_pnl_pct_of_available_margin (compute_metrics fs fu st m e) =
     (case realized_pnl_usdt (compute_metrics fs fu st m e) of None \<Rightarrow> None
      | Some p \<Rightarrow> pct_of p m)"
  unfolding compute_metrics_def Let_def
  by (simp_all only: TradeMetrics.select_convs)

text \<open>
  C9 (as amended). For every closed lifecycle with at least one fill, \<open>recompute\<close> sets
  \<open>realized_pnl_pct\<close> to \<open>pnl / max_abs_notional * 100\<close>, where the maximum absolute
  notional is the largest \<open>|amount * price|\<close> of its fills, and omits it when that
  maximum is 0; it sets \<open>realized_pnl_pct_of_available_margin\<close> to
  \<open>pnl / available_margin * 100\<close> when an available-margin snapshot is attached and is not
  0, and omits it otherwise: the equity snapshot is never used for it.
\<close>

theorem recompute_pnl_percentages:
  "status lc = status_closed \<and> fills lc \<noteq> [] \<longrightarrow>
     (let m = metrics (recompute lc);
          pnl = spec_realized_pnl lc;
          notional = Max ((\<lambda>f. abs (amount f * price f)) ` set (fills lc))
      in realized_pnl_usdt m = Some pnl \<and>
         max_abs_notional_usdt m = Some notional \<and>
         realized_pnl_pct m = (if notional = 0 then None else Some (pnl / notional * 100)) \<and>
         realized_pnl_pct_of_available_margin m =
           (case available_margin_usdt_at_entry (metrics lc) of
              None \<Rightarrow> None
            | Some a \<Rightarrow> if a = 0 then None else Some (pnl / a * 100)))"
proof
  assume a: "status lc = status_closed \<and> fills lc \<noteq> []"
  let ?cm = "compute_metrics (fills lc) (funding_payments_usdt lc) (status lc)
               (available_margin_usdt_at_entry (metrics lc)) (equity_usdt_at_entry (metrics lc))"
  have m: "metrics (recompute lc) = ?cm" using a by (simp add: recompute_def)
  have p: "realized_pnl_usdt ?cm = Some (spec_realized_pnl lc)"
    using a by (simp add: realized_pnl_closed)
  have n: "max_abs_notional_usdt ?cm =
             Some (Max ((\<lambda>f. abs (amount f * price f)) ` set (fills lc)))"
    using a by (simp add: max_notional_compute)
  show "let m = metrics (recompute lc);
          pnl = spec_realized_pnl lc;
          notional = Max ((\<lambda>f. abs (amount f * price f)) ` set (fills lc))
      in realized_pnl_usdt m = Some pnl \<and>
         max_abs_notional_usdt m = Some notional \<and>
         realized_pnl_pct m = (if notional = 0 then None else Some (pnl / notional * 100)) \<and>
         realized_pnl_pct_of_available_margin m =
           (case available_margin_usdt_at_entry (metrics lc) of
              None \<Rightarrow> None
            | Some a \<Rightarrow> if a = 0 then None else Some (pnl / a * 100))"
    unfolding Let_def m
    by (simp add: pct_compute p n pct_of_def split: option.splits)
qed

lemma spec_pnl_equity_only: "spec_realized_pnl equity_only_lc = 100"
  by code_simp

theorem recompute_pnl_percentages_witness:
  "status equity_only_lc = status_closed \<and> fills equity_only_lc \<noteq> [] \<and>
   realized_pnl_usdt (metrics (recompute equity_only_lc)) = Some 100 \<and>
   max_abs_notional_usdt (metrics (recompute equity_only_lc)) = Some 1100 \<and>
   realized_pnl_pct (metrics (recompute equity_only_lc)) = Some (100 / 11) \<and>
   realized_pnl_pct_of_available_margin (metrics (recompute equity_only_lc)) = None"
proof -
  have a: "status equity_only_lc = status_closed \<and> fills equity_only_lc \<noteq> []"
    by (simp add: equity_only_lc_def mk_lifecycle_def)
  have n: "Max ((\<lambda>f. abs (amount f * price f)) ` set (fills equity_only_lc)) = 1100"
    by (simp add: equity_only_lc_def mk_lifecycle_def mk_fill_def)
  have mg: "available_margin_usdt_at_entry (metrics equity_only_lc) = None"
    by (simp add: equity_only_lc_def mk_lifecycle_def TradeMetrics_default_def)
  show ?thesis using recompute_pnl_percentages [of equity_only_lc] a
    by (simp add: Let_def n mg spec_pnl_equity_only)
qed

text \<open>
  The claim as stated fails where only the equity snapshot is attached: the percentage
  over the snapshot would be \<open>100 / 1000 * 100 = 10\<close>, and \<open>recompute\<close> stores none.
\<close>

theorem pct_of_margin_equity_counterexample:
  "realized_pnl_pct_of_available_margin (metrics (recompute equity_only_lc)) = None \<and>
   spec_pct_of_snapshot equity_only_lc = Some 10"
  by (simp add: spec_pct_of_snapshot_def spec_snapshot_def spec_pnl_equity_only recompute_def
        pct_compute realized_pnl_compute)
     (simp add: equity_only_lc_def mk_lifecycle_def TradeMetrics_default_def pct_of_def)

subsection \<open>A lifecycle without fills\<close>

text \<open>
  C10. For every lifecycle whose fill list is empty, \<open>recompute\<close> replaces the metrics
  with the default TradeMetrics, whose \<open>fills_count\<close> is 0; this discards the attached
  \<open>available_margin_usdt_at_entry\<close> and \<open>equity_usdt_at_entry\<close>; and it returns without
  touching the risk metrics, so \<open>plan.planned_stop_loss\<close> is not copied into
  \<open>risk.planned_stop_loss\<close>, as it is when there is a fill.
\<close>

theorem recompute_no_fills:
  "(fills lc = [] \<longrightarrow>
      recompute lc = lc\<lparr>metrics := TradeMetrics_default\<rparr> \<and>
      fills_count (metrics (recompute lc)) = 0 \<and>
      available_margin_usdt_at_entry (metrics (recompute lc)) = None \<and>
      equity_usdt_at_entry (metrics (recompute lc)) = None \<and>
      risk (recompute lc) = risk lc) \<and>
   (fills lc \<noteq> [] \<longrightarrow>
      planned_stop_loss (risk (recompute lc)) = plan_stop_loss (plan lc) \<and>
      available_margin_usdt_at_entry (metrics (recompute lc)) =
        available_margin_usdt_at_entry (metrics lc) \<and>
      equity_usdt_at_entry (metrics (recompute lc)) = equity_usdt_at_entry (metrics lc))"
  by (simp add: recompute_def TradeMetrics_default_def)

theorem recompute_no_fills_witness:
  "fills empty_lc = [] \<and>
   available_margin_usdt_at_entry (metrics empty_lc) = Some 500 \<and>
   equity_usdt_at_entry (metrics empty_lc) = Some 1000 \<and>
   plan_stop_loss (plan empty_lc) = Some 95 \<and>
   available_margin_usdt_at_entry (metrics (recompute empty_lc)) = None \<and>
   equity_usdt_at_entry (metrics (recompute empty_lc)) = None \<and>
   planned_stop_loss (risk (recompute empty_lc)) = None \<and>
   fills one_fill_lc \<noteq> [] \<and>
   planned_stop_loss (risk (recompute one_fill_lc)) = Some 95 \<and>
   available_margin_usdt_at_entry (metrics (recompute one_fill_lc)) = Some 500"
proof -
  have e: "fills empty_lc = []" by (simp add: empty_lc_def mk_lifecycle_def)
  have o: "fills one_fill_lc \<noteq> []" by (simp add: one_fill_lc_def)
  have v: "available_margin_usdt_at_entry (metrics empty_lc) = Some 500 \<and>
           equity_usdt_at_entry (metrics empty_lc) = Some 1000 \<and>
           plan_stop_loss (plan empty_lc) = Some 95 \<and>
           planned_stop_loss (risk empty_lc) = None"
    by (simp add: empty_lc_def mk_lifecycle_def TradeMetrics_default_def TradePlan_default_def
          RiskMetrics_default_def)
  have w: "available_margin_usdt_at_entry (metrics one_fill_lc) = Some 500 \<and>
           plan_stop_loss (plan one_fill_lc) = Some 95"
    using v by (simp add: one_fill_lc_def)
  show ?thesis
    using e o v w recompute_no_fills [of empty_lc] recompute_no_fills [of one_fill_lc]
    by (simp add: TradeMetrics_default_def)
qed

section \<open>Properties of the discipline score\<close>

lemma level_level_event: "level (level_event l) = l"
  by (simp add: level_event_def)

lemma score_step_pair:
  "score_step (s, b) e =
     (if level e = P0 then (s - 20, b\<lparr>bd_P0 := bd_P0 b - 20\<rparr>)
      else if level e = P1 then (s - 8, b\<lparr>bd_P1 := bd_P1 b - 8\<rparr>)
      else (s, b))"
  by (simp add: score_step_def)

lemma foldl_score_step:
  "foldl score_step (s, b) evs =
     (s - 20 * int (count_level P0 evs) - 8 * int (count_level P1 evs),
      b\<lparr>bd_P0 := bd_P0 b - 20 * int (count_level P0 evs),
        bd_P1 := bd_P1 b - 8 * int (count_level P1 evs)\<rparr>)"
proof (induction evs arbitrary: s b)
  case Nil
  show ?case by (simp add: count_level_def)
next
  case (Cons e evs)
  have "foldl score_step (s, b) (e # evs) = foldl score_step (score_step (s, b) e) evs"
    by simp
  then show ?case
    by (cases "level e") (simp_all add: score_step_pair Cons.IH count_level_def)
qed

lemma score_eq: "score (compute_discipline_score evs) = spec_score evs"
  by (simp add: compute_discipline_score_def foldl_score_step spec_score_def)

lemma count_level_drop:
  "l \<noteq> l' \<Longrightarrow> count_level l (drop_level l' evs) = count_level l evs"
  by (induction evs) (auto simp: count_level_def drop_level_def)

lemma count_level_map:
  "map level evs = map level evs' \<Longrightarrow> count_level l evs = count_level l evs'"
proof (induction evs arbitrary: evs')
  case Nil
  then show ?case by (simp add: count_level_def)
next
  case (Cons e evs)
  then obtain e' es' where "evs' = e' # es'" by (cases evs') auto
  with Cons show ?case by (auto simp: count_level_def)
qed

text \<open>
  C6. For every event list the discipline score is \<open>100 - 20 * count(P0) - 8 * count(P1)\<close>
  with a floor of 0; it is an integer between 0 and 100; removing the P2 events does not
  change it; it is a function of the event list, and of the levels of its events only.
  The events P0, P0, P1 score 52.
\<close>

theorem discipline_score_formula:
  "score (compute_discipline_score evs) =
     max 0 (100 - 20 * int (count_level P0 evs) - 8 * int (count_level P1 evs)) \<and>
   0 \<le> score (compute_discipline_score evs) \<and>
   score (compute_discipline_score evs) \<le> 100 \<and>
   score (compute_discipline_score (drop_level P2 evs)) = score (compute_discipline_score evs) \<and>
   (map level evs = map level evs' \<longrightarrow>
      compute_discipline_score evs = compute_discipline_score evs') \<and>
   score (compute_discipline_score [level_event P0, level_event P0, level_event P1]) = 52"
proof (intro conjI impI)
  show "score (compute_discipline_score evs) =
     max 0 (100 - 20 * int (count_level P0 evs) - 8 * int (count_level P1 evs))"
    by (simp add: score_eq spec_score_def)
  show "0 \<le> score (compute_discipline_score evs)"
    by (simp add: score_eq spec_score_def)
  show "score (compute_discipline_score evs) \<le> 100"
    by (simp add: score_eq spec_score_def)
  show "score (compute_discipline_score (drop_level P2 evs)) = score (compute_discipline_score evs)"
    by (simp add: score_eq spec_score_def count_level_drop)
  show "score (compute_discipline_score [level_event P0, level_event P0, level_event P1]) = 52"
    by (simp add: score_eq spec_score_def count_level_def level_level_event)
next
  assume m: "map level evs = map level evs'"
  have "count_level P0 evs = count_level P0 evs'" "count_level P1 evs = count_level P1 evs'"
    by (rule count_level_map [OF m])+
  then show "compute_discipline_score evs = compute_discipline_score evs'"
    by (simp add: compute_discipline_score_def foldl_score_step)
qed

theorem discipline_score_formula_witness:
  "map level [level_event P0, level_event P2] =
     map level [(level_event P0)\<lparr>occurred_at := 7\<rparr>, level_event P2] \<and>
   compute_discipline_score [level_event P0, level_event P2] =
     compute_discipline_score [(level_event P0)\<lparr>occurred_at := 7\<rparr>, level_event P2] \<and>
   score (compute_discipline_score [level_event P0, level_event P2]) = 80"
proof -
  have m: "map level [level_event P0, level_event P2] =
     map level [(level_event P0)\<lparr>occurred_at := 7\<rparr>, level_event P2]"
    by (simp add: level_level_event)
  have c: "count_level P0 [level_event P0, level_event P2] = 1"
          "count_level P1 [level_event P0, level_event P2] = 0"
    by (simp_all add: count_level_def level_level_event)
  note t = discipline_score_formula
      [of "[level_event P0, level_event P2]"
          "[(level_event P0)\<lparr>occurred_at := 7\<rparr>, level_event P2]"]
  from t have "score (compute_discipline_score [level_event P0, level_event P2]) =
     max 0 (100 - 20 * int (count_level P0 [level_event P0, level_event P2])
              - 8 * int (count_level P1 [level_event P0, level_event P2]))"
    by (rule conjunct1)
  then have s: "score (compute_discipline_score [level_event P0, level_event P2]) = 80"
    by (simp only: c)
  from t m have e: "compute_discipline_score [level_event P0, level_event P2] =
     compute_discipline_score [(level_event P0)\<lparr>occurred_at := 7\<rparr>, level_event P2]"
    by blast
  from m e s show ?thesis by blast
qed

section \<open>Properties of the event detection\<close>

subsection \<open>Auxiliary facts\<close>

lemma event_type_mk_event [simp]:
  "event_type (mk_event lc t l a e) = t" "level (mk_event lc t l a e) = l"
  "occurred_at (mk_event lc t l a e) = a" "evidence (mk_event lc t l a e) = e"
  by (simp_all add: mk_event_def)

lemma events_of_type_simps [simp]:
  "events_of_type t [] = []"
  "events_of_type t (xs @ ys) = events_of_type t xs @ events_of_type t ys"
  "events_of_type t (x # xs) = (if event_type x = t then [x] else []) @ events_of_type t xs"
  by (simp_all add: events_of_type_def)

lemma stop_loss_events_type:
  "e \<in> set (stop_loss_events lc fs) \<Longrightarrow> event_type e = stop_loss_triggered"
  by (auto simp: stop_loss_events_def split: option.splits)

lemma big_loss_events_type:
  "e \<in> set (big_loss_events cfg lc lf) \<Longrightarrow> event_type e = big_loss_pct_equity"
  by (auto simp: big_loss_events_def Let_def split: option.splits if_splits)

lemma high_leverage_events_type:
  "e \<in> set (high_leverage_events cfg lc ff) \<Longrightarrow> event_type e = high_leverage_used"
  by (auto simp: high_leverage_events_def Let_def split: option.splits if_splits)

lemma night_events_type:
  "e \<in> set (night_events tz cfg lc ff) \<Longrightarrow> event_type e = night_trading_us_eastern"
  by (auto simp: night_events_def Let_def split: option.splits if_splits)

lemma events_of_type_all:
  "(\<And>e. e \<in> set evs \<Longrightarrow> event_type e = t') \<Longrightarrow>
     events_of_type t evs = (if t = t' then evs else [])"
  by (induction evs) (auto simp: events_of_type_def)

lemma events_of_type_rules:
  "events_of_type t (stop_loss_events lc fs) =
     (if t = stop_loss_triggered then stop_loss_events lc fs else [])"
  "events_of_type t (big_loss_events cfg lc lf) =
     (if t = big_loss_pct_equity then big_loss_events cfg lc lf else [])"
  "events_of_type t (high_leverage_events cfg lc ff) =
     (if t = high_leverage_used then high_leverage_events cfg lc ff else [])"
  "events_of_type t (night_events tz cfg lc ff) =
     (if t = night_trading_us_eastern then night_events tz cfg lc ff else [])"
  by (rule events_of_type_all, erule stop_loss_events_type big_loss_events_type
        high_leverage_events_type night_events_type)+

lemma detect_fst:
  "fst (detect_events_for_lifecycle tz cfg lc) = (if fills lc = [] then lc else recompute lc)"
  by (simp add: detect_events_for_lifecycle_def Let_def)

lemma detect_stop_events:
  "events_of_type stop_loss_triggered (snd (detect_events_for_lifecycle tz cfg lc)) =
     (if fills lc = [] then []
      else stop_loss_events (recompute lc) (sort_key ts (fills lc)))"
  by (simp add: detect_events_for_lifecycle_def Let_def events_of_type_rules)

lemma detect_night_events:
  "events_of_type night_trading_us_eastern (snd (detect_events_for_lifecycle tz cfg lc)) =
     (if fills lc = [] then []
      else night_events tz cfg (recompute lc) (hd (sort_key ts (fills lc))))"
  by (simp add: detect_events_for_lifecycle_def Let_def events_of_type_rules)

lemma detect_no_consecutive:
  "events_of_type consecutive_losses (snd (detect_events_for_lifecycle tz cfg lc)) = []"
  by (simp add: detect_events_for_lifecycle_def Let_def events_of_type_rules)

lemma stop_trigger_find:
  "stop_trigger_fill ps sl fs = find (crosses_stop ps sl) fs"
proof -
  have "(\<lambda>f. side f = (if (if ps = PS_long then buy else sell) = buy then sell else buy) \<and>
             (ps = PS_long \<and> price f \<le> sl \<or> ps = PS_short \<and> sl \<le> price f))
        = crosses_stop ps sl"
    by (cases ps) (auto simp: crosses_stop_def fun_eq_iff)
  then show ?thesis by (simp add: stop_trigger_fill_def Let_def)
qed

lemma find_first:
  "find P xs = Some x \<Longrightarrow>
     \<exists>pre post. xs = pre @ x # post \<and> P x \<and> (\<forall>g \<in> set pre. \<not> P g)"
proof (induction xs)
  case Nil
  then show ?case by simp
next
  case (Cons a xs)
  show ?case
  proof (cases "P a")
    case True
    with Cons.prems have "a = x" by simp
    with True have "a # xs = [] @ x # xs \<and> P x \<and> (\<forall>g \<in> set []. \<not> P g)" by simp
    then show ?thesis by blast
  next
    case False
    with Cons.prems have "find P xs = Some x" by simp
    from Cons.IH [OF this] obtain pre post
      where "xs = pre @ x # post" "P x" "\<forall>g \<in> set pre. \<not> P g" by blast
    with False have "a # xs = (a # pre) @ x # post \<and> P x \<and> (\<forall>g \<in> set (a # pre). \<not> P g)"
      by simp
    then show ?thesis by blast
  qed
qed

lemma first_in_sorted_minimal:
  assumes "sort_key ts fs = pre @ x # post" "\<forall>g \<in> set pre. \<not> P g" "g \<in> set fs" "P g"
  shows "ts x \<le> ts g"
proof -
  have s: "sorted (map ts (pre @ x # post))"
    using assms(1) sorted_sort_key [of ts fs] by simp
  have "g \<in> set (pre @ x # post)" using assms(1,3) set_sort [of ts fs] by simp
  with assms(2,4) have "g = x \<or> g \<in> set post" by auto
  with s show ?thesis by (auto simp: sorted_append)
qed

subsection \<open>The stop-loss rule\<close>

lemma stop_events_eq:
  "stop_events tz cfg lc =
     (case plan_stop_loss (plan lc) of None \<Rightarrow> []
      | Some sl \<Rightarrow>
          (case find (crosses_stop (position_side lc) sl) (sort_key ts (fills lc)) of
             None \<Rightarrow> []
           | Some f \<Rightarrow>
               [mk_event (recompute lc) stop_loss_triggered P0 (ts f)
                  (StopLossEvidence sl (fill_ref f)
                     (if position_side lc = PS_long then ''price <= planned_stop_loss''
                      else ''price >= planned_stop_loss''))]))"
proof (cases "fills lc = []")
  case True
  then show ?thesis
    by (simp add: stop_events_def detect_stop_events split: option.splits)
next
  case False
  then show ?thesis
    by (simp add: stop_events_def detect_stop_events stop_loss_events_def stop_trigger_find
          split: option.splits)
qed

lemma stop_example:
  "map occurred_at (stop_events no_conversion DetectConfig_default stop_example_lc) = [3] \<and>
   map evidence (stop_events no_conversion DetectConfig_default stop_example_lc) =
     [StopLossEvidence 95 (EvidenceFillRef 3 sell 94 5 None None)
        ''price <= planned_stop_loss'']"
  by code_simp

text \<open>
  C4. For a lifecycle with a planned stop-loss price, the detector emits a
  \<open>stop_loss_triggered\<close> event exactly when some fill on the exit side crosses the stop
  (a sell at a price at or below the stop for a long, a buy at a price at or above the
  stop for a short); it emits at most one; the event has severity P0 and refers to the
  lifecycle; its occurrence timestamp is the timestamp of the first crossing fill in time
  order, which no crossing fill precedes, and its evidence holds the planned stop and the
  timestamp, side, price, amount and identifiers of that fill. With a long, a stop of 95
  and the exit fills sell at 96 then sell at 94, the event is on the sell at 94. Without a
  planned stop there is no such event.
\<close>

theorem stop_loss_rule:
  "(plan_stop_loss (plan lc) = Some sl \<longrightarrow>
      ((stop_events tz cfg lc \<noteq> []) \<longleftrightarrow>
         (\<exists>f \<in> set (fills lc). crosses_stop (position_side lc) sl f)) \<and>
      length (stop_events tz cfg lc) \<le> 1 \<and>
      (\<forall>e \<in> set (stop_events tz cfg lc).
         level e = P0 \<and> event_type e = stop_loss_triggered \<and>
         ev_lifecycle_id e = lifecycle_id lc \<and>
         (\<exists>pre f post.
            sort_key ts (fills lc) = pre @ f # post \<and>
            crosses_stop (position_side lc) sl f \<and>
            (\<forall>g \<in> set pre. \<not> crosses_stop (position_side lc) sl g) \<and>
            (\<forall>g \<in> set (fills lc). crosses_stop (position_side lc) sl g \<longrightarrow> ts f \<le> ts g) \<and>
            occurred_at e = ts f \<and>
            evidence e =
              StopLossEvidence sl
                (EvidenceFillRef (ts f) (side f) (price f) (amount f) (trade_id f) (order_id f))
                (if position_side lc = PS_long then ''price <= planned_stop_loss''
                 else ''price >= planned_stop_loss'')))) \<and>
   (plan_stop_loss (plan lc) = None \<longrightarrow> stop_events tz cfg lc = []) \<and>
   map occurred_at (stop_events no_conversion DetectConfig_default stop_example_lc) = [3] \<and>
   map evidence (stop_events no_conversion DetectConfig_default stop_example_lc) =
     [StopLossEvidence 95 (EvidenceFillRef 3 sell 94 5 None None)
        ''price <= planned_stop_loss'']"
proof (intro conjI impI)
  assume sl: "plan_stop_loss (plan lc) = Some sl"
  let ?P = "crosses_stop (position_side lc) sl"
  show "(stop_events tz cfg lc \<noteq> []) \<longleftrightarrow> (\<exists>f \<in> set (fills lc). ?P f)"
  proof -
    have "(stop_events tz cfg lc \<noteq> []) \<longleftrightarrow> find ?P (sort_key ts (fills lc)) \<noteq> None"
      by (simp add: stop_events_eq sl split: option.splits)
    also have "\<dots> \<longleftrightarrow> (\<exists>f \<in> set (fills lc). ?P f)"
      by (auto simp: find_None_iff)
    finally show ?thesis .
  qed
  show "length (stop_events tz cfg lc) \<le> 1"
    by (simp add: stop_events_eq sl split: option.splits)
  show "\<forall>e \<in> set (stop_events tz cfg lc).
         level e = P0 \<and> event_type e = stop_loss_triggered \<and>
         ev_lifecycle_id e = lifecycle_id lc \<and>
         (\<exists>pre f post.
            sort_key ts (fills lc) = pre @ f # post \<and> ?P f \<and>
            (\<forall>g \<in> set pre. \<not> ?P g) \<and>
            (\<forall>g \<in> set (fills lc). ?P g \<longrightarrow> ts f \<le> ts g) \<and>
            occurred_at e = ts f \<and>
            evidence e =
              StopLossEvidence sl
                (EvidenceFillRef (ts f) (side f) (price f) (amount f) (trade_id f) (order_id f))
                (if position_side lc = PS_long then ''price <= planned_stop_loss''
                 else ''price >= planned_stop_loss''))"
  proof
    fix e assume e: "e \<in> set (stop_events tz cfg lc)"
    then obtain f where f: "find ?P (sort_key ts (fills lc)) = Some f"
      by (cases "find ?P (sort_key ts (fills lc))") (auto simp: stop_events_eq sl)
    from find_first [OF f] obtain pre post
      where p: "sort_key ts (fills lc) = pre @ f # post" "?P f" "\<forall>g \<in> set pre. \<not> ?P g"
      by blast
    have m: "\<forall>g \<in> set (fills lc). ?P g \<longrightarrow> ts f \<le> ts g"
      using first_in_sorted_minimal [OF p(1) p(3)] by blast
    from e f have v: "level e = P0" "event_type e = stop_loss_triggered"
      "ev_lifecycle_id e = lifecycle_id lc" "occurred_at e = ts f"
      "evidence e =
         StopLossEvidence sl
           (EvidenceFillRef (ts f) (side f) (price f) (amount f) (trade_id f) (order_id f))
           (if position_side lc = PS_long then ''price <= planned_stop_loss''
            else ''price >= planned_stop_loss'')"
      by (simp_all add: stop_events_eq sl fill_ref_def mk_event_def)
    show "level e = P0 \<and> event_type e = stop_loss_triggered \<and>
         ev_lifecycle_id e = lifecycle_id lc \<and>
         (\<exists>pre f post.
            sort_key ts (fills lc) = pre @ f # post \<and> ?P f \<and>
            (\<forall>g \<in> set pre. \<not> ?P g) \<and>
            (\<forall>g \<in> set (fills lc). ?P g \<longrightarrow> ts f \<le> ts g) \<and>
            occurred_at e = ts f \<and>
            evidence e =
              StopLossEvidence sl
                (EvidenceFillRef (ts f) (side f) (price f) (amount f) (trade_id f) (order_id f))
                (if position_side lc = PS_long then ''price <= planned_stop_loss''
                 else ''price >= planned_stop_loss''))"
      using v p m by blast
  qed
next
  assume "plan_stop_loss (plan lc) = None"
  then show "stop_events tz cfg lc = []" by (simp add: stop_events_eq)
qed (simp_all add: stop_example)

theorem stop_loss_rule_witness:
  "plan_stop_loss (plan stop_example_lc) = Some 95 \<and>
   (\<exists>f \<in> set (fills stop_example_lc). crosses_stop (position_side stop_example_lc) 95 f) \<and>
   stop_events no_conversion DetectConfig_default stop_example_lc \<noteq> [] \<and>
   plan_stop_loss (plan open_single_lc) = None \<and>
   stop_events no_conversion DetectConfig_default open_single_lc = []"
proof -
  have a: "plan_stop_loss (plan stop_example_lc) = Some 95"
    by (simp add: stop_example_lc_def mk_lifecycle_def)
  have b: "plan_stop_loss (plan open_single_lc) = None"
    by (simp add: open_single_lc_def mk_lifecycle_def TradePlan_default_def)
  have c: "\<exists>f \<in> set (fills stop_example_lc). crosses_stop (position_side stop_example_lc) 95 f"
    by (simp add: stop_example_lc_def mk_lifecycle_def mk_fill_def crosses_stop_def)
  show ?thesis
    using a b c
      stop_loss_rule [of stop_example_lc 95 no_conversion DetectConfig_default]
      stop_loss_rule [of open_single_lc 0 no_conversion DetectConfig_default]
    by blast
qed

subsection \<open>The night-trading rule\<close>

lemma entry_ts_compute:
  "entry_ts (compute_metrics fs fu st m e) = Some (ts (hd (sort_key ts fs)))"
  unfolding compute_metrics_def Let_def by (simp only: TradeMetrics.select_convs)

lemma night_events_of_eq:
  "fills lc \<noteq> [] \<Longrightarrow>
   night_events_of tz cfg lc =
     (case tz (entry_instant lc) of
        None \<Rightarrow> []
      | Some lt \<Rightarrow>
          if in_late (fst (us_eastern_night_window cfg)) lt \<or>
             in_early (snd (us_eastern_night_window cfg)) lt
          then [mk_event (recompute lc) night_trading_us_eastern P1 (entry_instant lc)
                  (NightTradingEvidence (entry_instant lc) lt (us_eastern_night_window cfg))]
          else [])"
proof -
  assume ne: "fills lc \<noteq> []"
  then have e: "entry_ts (metrics (recompute lc)) = Some (entry_instant lc)"
    by (simp add: recompute_def entry_ts_compute entry_instant_def)
  show ?thesis
    using ne
    by (simp add: night_events_of_def detect_night_events night_events_def e ts_or_def Let_def
          split: option.splits)
qed

lemma default_window_minutes:
  "0 \<le> minute lt \<Longrightarrow> minute lt < 60 \<Longrightarrow>
     (in_late (22, 0) lt \<or> in_early (6, 0) lt) \<longleftrightarrow>
     (1320 \<le> minute_of_day lt \<or> minute_of_day lt \<le> 360)"
  by (auto simp: in_late_def in_early_def minute_of_day_def)

lemma default_window_microseconds:
  "valid_local_time lt \<Longrightarrow>
     (in_late (22, 0) lt \<or> in_early (6, 0) lt) \<longleftrightarrow>
     (79200000000 \<le> microsecond_of_day lt \<or> microsecond_of_day lt < 21660000000)"
  by (auto simp: in_late_def in_early_def microsecond_of_day_def valid_local_time_def)

lemma night_examples:
  "night_events_of eastern_standard_time DetectConfig_default (entry_lc 39600000000) \<noteq> [] \<and>
   night_events_of eastern_standard_time DetectConfig_default (entry_lc 39659999999) \<noteq> [] \<and>
   night_events_of eastern_standard_time DetectConfig_default (entry_lc 39660000000) = []"
  by code_simp

text \<open>
  C7 (as amended). For a lifecycle with at least one fill, under the default window, the
  detector emits a \<open>night_trading_us_eastern\<close> event (severity P1, at most one) exactly
  when the entry timestamp in US-Eastern local time, cut to its hour and minute, lies in
  the cross-midnight window from 22:00 to 06:00 with both boundaries included: that is,
  when the local time is at or after 22:00:00 or before 06:01:00. The seconds and
  microseconds are not read, so every entry within the minute 06:00 fires; an entry at
  06:01 does not. When the conversion fails there is no event, and no error.
\<close>

theorem night_trading_rule:
  "(fills lc \<noteq> [] \<and> us_eastern_night_window cfg = ((22, 0), (6, 0)) \<longrightarrow>
      (\<forall>lt. tz (entry_instant lc) = Some lt \<and> valid_local_time lt \<longrightarrow>
         ((night_events_of tz cfg lc \<noteq> []) \<longleftrightarrow>
            (1320 \<le> minute_of_day lt \<or> minute_of_day lt \<le> 360)) \<and>
         ((night_events_of tz cfg lc \<noteq> []) \<longleftrightarrow>
            (79200000000 \<le> microsecond_of_day lt \<or> microsecond_of_day lt < 21660000000))) \<and>
      (tz (entry_instant lc) = None \<longrightarrow> night_events_of tz cfg lc = []) \<and>
      length (night_events_of tz cfg lc) \<le> 1 \<and>
      (\<forall>e \<in> set (night_events_of tz cfg lc).
         level e = P1 \<and> event_type e = night_trading_us_eastern \<and>
         occurred_at e = entry_instant lc)) \<and>
   night_events_of eastern_standard_time DetectConfig_default (entry_lc 39600000000) \<noteq> [] \<and>
   night_events_of eastern_standard_time DetectConfig_default (entry_lc 39659999999) \<noteq> [] \<and>
   night_events_of eastern_standard_time DetectConfig_default (entry_lc 39660000000) = []"
proof (intro conjI impI allI)
  fix lt
  assume a: "fills lc \<noteq> [] \<and> us_eastern_night_window cfg = ((22, 0), (6, 0))"
    and b: "tz (entry_instant lc) = Some lt \<and> valid_local_time lt"
  have f: "(night_events_of tz cfg lc \<noteq> []) \<longleftrightarrow> (in_late (22, 0) lt \<or> in_early (6, 0) lt)"
    using a b by (simp add: night_events_of_eq)
  from b have m: "0 \<le> minute lt" "minute lt < 60" by (simp_all add: valid_local_time_def)
  show "(night_events_of tz cfg lc \<noteq> []) \<longleftrightarrow>
            (1320 \<le> minute_of_day lt \<or> minute_of_day lt \<le> 360)"
    using f m by (simp add: default_window_minutes)
  show "(night_events_of tz cfg lc \<noteq> []) \<longleftrightarrow>
            (79200000000 \<le> microsecond_of_day lt \<or> microsecond_of_day lt < 21660000000)"
    using f b by (simp add: default_window_microseconds)
next
  assume "fills lc \<noteq> [] \<and> us_eastern_night_window cfg = ((22, 0), (6, 0))"
    and "tz (entry_instant lc) = None"
  then show "night_events_of tz cfg lc = []" by (simp add: night_events_of_eq)
next
  assume "fills lc \<noteq> [] \<and> us_eastern_night_window cfg = ((22, 0), (6, 0))"
  then show "length (night_events_of tz cfg lc) \<le> 1"
    by (simp add: night_events_of_eq split: option.splits)
next
  assume "fills lc \<noteq> [] \<and> us_eastern_night_window cfg = ((22, 0), (6, 0))"
  then show "\<forall>e \<in> set (night_events_of tz cfg lc).
         level e = P1 \<and> event_type e = night_trading_us_eastern \<and>
         occurred_at e = entry_instant lc"
    by (auto simp: night_events_of_eq split: option.splits if_splits)
qed (simp_all add: night_examples)

theorem night_trading_rule_witness:
  "fills (entry_lc 39630000000) \<noteq> [] \<and>
   us_eastern_night_window DetectConfig_default = ((22, 0), (6, 0)) \<and>
   eastern_standard_time (entry_instant (entry_lc 39630000000)) =
     Some \<lparr>hour = 6, minute = 0, second = 30, microsecond = 0\<rparr> \<and>
   valid_local_time \<lparr>hour = 6, minute = 0, second = 30, microsecond = 0\<rparr> \<and>
   microsecond_of_day \<lparr>hour = 6, minute = 0, second = 30, microsecond = 0\<rparr> < 21660000000 \<and>
   night_events_of eastern_standard_time DetectConfig_default (entry_lc 39630000000) \<noteq> [] \<and>
   no_conversion (entry_instant (entry_lc 39630000000)) = None \<and>
   night_events_of no_conversion DetectConfig_default (entry_lc 39630000000) = []"
proof -
  let ?lt = "\<lparr>hour = 6, minute = 0, second = 30, microsecond = 0\<rparr>"
  have a: "fills (entry_lc 39630000000) \<noteq> [] \<and>
           us_eastern_night_window DetectConfig_default = ((22, 0), (6, 0))"
    by (simp add: entry_lc_def mk_lifecycle_def DetectConfig_default_def)
  have i: "entry_instant (entry_lc 39630000000) = 39630000000"
    by (simp add: entry_instant_def entry_lc_def mk_lifecycle_def mk_fill_def)
  have t: "eastern_standard_time (entry_instant (entry_lc 39630000000)) = Some ?lt"
    unfolding i by (simp add: eastern_standard_time_def)
  have v: "valid_local_time ?lt" by (simp add: valid_local_time_def)
  have m: "microsecond_of_day ?lt < 21660000000" by (simp add: microsecond_of_day_def)
  have n: "no_conversion (entry_instant (entry_lc 39630000000)) = None"
    by (simp add: no_conversion_def)
  show ?thesis
    using a t v m n
      night_trading_rule [of "entry_lc 39630000000" DetectConfig_default eastern_standard_time]
      night_trading_rule [of "entry_lc 39630000000" DetectConfig_default no_conversion]
    by blast
qed

text \<open>
  The claim as stated, with the window closed at 06:00, fails within the minute 06:00: an
  entry at 06:00:30 US-Eastern lies after the boundary, and the event is emitted.
\<close>

theorem night_half_minute_counterexample:
  "eastern_standard_time (entry_instant (entry_lc 39630000000)) =
     Some \<lparr>hour = 6, minute = 0, second = 30, microsecond = 0\<rparr> \<and>
   \<not> in_night_window \<lparr>hour = 6, minute = 0, second = 30, microsecond = 0\<rparr> \<and>
   night_events_of eastern_standard_time DetectConfig_default (entry_lc 39630000000) \<noteq> []"
  by code_simp

subsection \<open>The consecutive-losses rule\<close>

lemma events_of_type_concat:
  "(\<And>xs. xs \<in> set xss \<Longrightarrow> events_of_type t xs = []) \<Longrightarrow> events_of_type t (concat xss) = []"
  by (induction xss) simp_all

lemma detect_fst_recompute:
  "fst (detect_events_for_lifecycle tz cfg (recompute lc)) = recompute lc"
  by (simp add: detect_fst recompute_idem)

lemma consecutive_events_eq:
  "consecutive_events tz cfg lcs =
     consecutive_losses_events (consecutive_losses_n cfg) (map recompute lcs)"
proof -
  have f: "map fst (map (detect_events_for_lifecycle tz cfg) (map recompute lcs)) = map recompute lcs"
    by (simp add: detect_fst_recompute comp_def)
  have c: "events_of_type consecutive_losses
             (concat (map snd (map (detect_events_for_lifecycle tz cfg) (map recompute lcs)))) = []"
    by (rule events_of_type_concat) (auto simp: detect_no_consecutive)
  have s: "events_of_type consecutive_losses (consecutive_losses_events n ls) =
             consecutive_losses_events n ls" for n ls
    by (simp add: consecutive_losses_events_def Let_def)
  show ?thesis
    unfolding consecutive_events_def detect_events_for_lifecycles_def Let_def
    by (simp only: events_of_type_simps c f s append_Nil)
qed

lemma is_loss_iff: "is_loss w \<longleftrightarrow> (\<exists>p. realized_pnl_usdt (metrics w) = Some p \<and> p < 0)"
  by (cases "realized_pnl_usdt (metrics w)") (auto simp: is_loss_def py_or_def)

lemma last_n_iff:
  "(int (length cs) \<ge> n \<and> P (drop (length cs - nat n) cs)) \<longleftrightarrow>
   (\<exists>pre window. cs = pre @ window \<and> int (length window) = n \<and> P window)" if "0 \<le> n"
proof
  assume a: "int (length cs) \<ge> n \<and> P (drop (length cs - nat n) cs)"
  have "cs = take (length cs - nat n) cs @ drop (length cs - nat n) cs" by simp
  moreover have "int (length (drop (length cs - nat n) cs)) = n" using a that by auto
  ultimately show "\<exists>pre window. cs = pre @ window \<and> int (length window) = n \<and> P window"
    using a by blast
next
  assume "\<exists>pre window. cs = pre @ window \<and> int (length window) = n \<and> P window"
  then obtain pre window where w: "cs = pre @ window" "int (length window) = n" "P window"
    by blast
  then have "length cs - nat n = length pre" by auto
  with w show "int (length cs) \<ge> n \<and> P (drop (length cs - nat n) cs)" by auto
qed

lemma consecutive_fires_iff:
  "consecutive_losses_events n ls \<noteq> [] \<longleftrightarrow>
     2 \<le> n \<and> (\<exists>pre window. closed_sorted_of ls = pre @ window \<and> int (length window) = n \<and>
               (\<forall>w \<in> set window. \<exists>p. realized_pnl_usdt (metrics w) = Some p \<and> p < 0))"
proof (cases "2 \<le> n")
  case False
  then show ?thesis by (simp add: consecutive_losses_events_def Let_def)
next
  case True
  then have n0: "0 \<le> n" by simp
  have "consecutive_losses_events n ls \<noteq> [] \<longleftrightarrow>
          int (length (closed_sorted_of ls)) \<ge> n \<and>
          list_all is_loss (drop (length (closed_sorted_of ls) - nat n) (closed_sorted_of ls))"
    using True by (simp add: consecutive_losses_events_def Let_def)
  also have "\<dots> \<longleftrightarrow> (\<exists>pre window. closed_sorted_of ls = pre @ window \<and>
                int (length window) = n \<and> list_all is_loss window)"
    by (rule last_n_iff [OF n0])
  finally show ?thesis using True by (simp add: list_all_iff is_loss_iff)
qed

lemma closed_sorted_of_eligible: "closed_sorted_of ls = eligible_by_exit ls"
proof -
  have "(\<lambda>x. the (exit_ts (metrics x))) = exit_time" by (simp add: fun_eq_iff exit_time_def)
  moreover have
    "(\<lambda>lc. exit_ts (metrics lc) \<noteq> None \<and> realized_pnl_usdt (metrics lc) \<noteq> None) = has_exit_and_pnl"
    by (simp add: fun_eq_iff has_exit_and_pnl_def)
  ultimately show ?thesis by (simp add: closed_sorted_of_def eligible_by_exit_def)
qed

lemma sorted_by_exit_iff: "sorted_by_exit xs es \<longleftrightarrow> es = sort_key exit_time xs"
proof
  assume a: "sorted_by_exit xs es"
  then have m: "mset es = mset xs" and s: "sorted (map exit_time es)"
    and f: "\<And>k. k \<in> set es \<Longrightarrow> filter (\<lambda>x. exit_time k = exit_time x) es =
                               filter (\<lambda>x. exit_time k = exit_time x) xs"
    by (simp_all add: sorted_by_exit_def)
  have "sort_key exit_time xs = es" by (rule properties_for_sort_key [OF m f s])
  then show "es = sort_key exit_time xs" by simp
next
  assume e: "es = sort_key exit_time xs"
  have "filter (\<lambda>x. exit_time k = exit_time x) (sort_key exit_time xs) =
        filter (\<lambda>x. exit_time k = exit_time x) xs" for k
    using sort_key_stable [of exit_time "exit_time k" xs] by (simp add: eq_commute)
  with e show "sorted_by_exit xs es"
    by (simp add: sorted_by_exit_def)
qed

lemma consecutive_fires_spec:
  "consecutive_losses_events n ls \<noteq> [] \<longleftrightarrow>
     2 \<le> n \<and>
     (\<exists>es pre window.
        sorted_by_exit (filter has_exit_and_pnl ls) es \<and>
        es = pre @ window \<and> int (length window) = n \<and>
        (\<forall>w \<in> set window. \<exists>p. realized_pnl_usdt (metrics w) = Some p \<and> p < 0))"
proof -
  have "consecutive_losses_events n ls \<noteq> [] \<longleftrightarrow>
     2 \<le> n \<and> (\<exists>pre window. eligible_by_exit ls = pre @ window \<and> int (length window) = n \<and>
               (\<forall>w \<in> set window. \<exists>p. realized_pnl_usdt (metrics w) = Some p \<and> p < 0))"
    using consecutive_fires_iff [of n ls] by (simp only: closed_sorted_of_eligible)
  then show ?thesis
    by (simp add: sorted_by_exit_iff eligible_by_exit_def)
qed

lemma consecutive_examples:
  "map pnl_of (eligible_by_exit (map recompute five_lcs)) =
     [Some (- 1), Some (- 2), Some (- 3), Some 1, Some (- 4)] \<and>
   consecutive_events no_conversion (config_n 3) five_lcs = [] \<and>
   map pnl_of (eligible_by_exit (map recompute three_lcs)) =
     [Some 7, Some (- 1), Some (- 2), Some (- 3)] \<and>
   map ev_lifecycle_id (consecutive_events no_conversion (config_n 3) three_lcs) = [''l3''] \<and>
   map lifecycle_id (eligible_by_exit (map recompute crossing_lcs)) = [''C'', ''B'', ''A''] \<and>
   map pnl_of (eligible_by_exit (map recompute crossing_lcs)) =
     [Some 5, Some (- 2), Some (- 1)] \<and>
   map ev_lifecycle_id (consecutive_events no_conversion (config_n 2) crossing_lcs) = [''A''] \<and>
   map occurred_at (consecutive_events no_conversion (config_n 2) crossing_lcs) = [10]"
  by code_simp

text \<open>
  C5 (as amended). For every batch of lifecycles and every window size \<open>N\<close>, the batch
  detector emits at most one \<open>consecutive_losses\<close> event. For \<open>N \<ge> 2\<close> it emits the event
  exactly when the lifecycles that, once recomputed, have both an exit timestamp and a
  realized PnL, sorted ascending by exit time (those with equal exit times in batch
  order), are at least \<open>N\<close> and the last \<open>N\<close> of them all have a realized PnL below 0; for
  \<open>N < 2\<close> it never emits it. With the PnLs -1, -2, -3, +1, -4 in exit order and
  \<open>N = 3\<close> it does not fire; with -1, -2, -3 as the final three it fires. The order is by
  exit time and not by entry time: for the lifecycles A (1 to 10, PnL -1), B (2 to 9,
  PnL -2) and C (3 to 4, PnL +5) and \<open>N = 2\<close> the order is C, B, A and the event fires, on
  A; a lifecycle that is still open is left out.
\<close>

theorem consecutive_losses_rule:
  "length (consecutive_events tz cfg lcs) \<le> 1 \<and>
   ((consecutive_events tz cfg lcs \<noteq> []) \<longleftrightarrow>
      2 \<le> consecutive_losses_n cfg \<and>
      (\<exists>es pre window.
         sorted_by_exit (filter has_exit_and_pnl (map recompute lcs)) es \<and>
         es = pre @ window \<and>
         int (length window) = consecutive_losses_n cfg \<and>
         (\<forall>w \<in> set window. \<exists>p. realized_pnl_usdt (metrics w) = Some p \<and> p < 0))) \<and>
   (consecutive_losses_n cfg < 2 \<longrightarrow> consecutive_events tz cfg lcs = []) \<and>
   map pnl_of (eligible_by_exit (map recompute five_lcs)) =
     [Some (- 1), Some (- 2), Some (- 3), Some 1, Some (- 4)] \<and>
   consecutive_events no_conversion (config_n 3) five_lcs = [] \<and>
   map pnl_of (eligible_by_exit (map recompute three_lcs)) =
     [Some 7, Some (- 1), Some (- 2), Some (- 3)] \<and>
   map ev_lifecycle_id (consecutive_events no_conversion (config_n 3) three_lcs) = [''l3''] \<and>
   map lifecycle_id (eligible_by_exit (map recompute crossing_lcs)) = [''C'', ''B'', ''A''] \<and>
   map pnl_of (eligible_by_exit (map recompute crossing_lcs)) =
     [Some 5, Some (- 2), Some (- 1)] \<and>
   map ev_lifecycle_id (consecutive_events no_conversion (config_n 2) crossing_lcs) = [''A''] \<and>
   map occurred_at (consecutive_events no_conversion (config_n 2) crossing_lcs) = [10]"
proof (intro conjI impI)
  show "length (consecutive_events tz cfg lcs) \<le> 1"
    by (simp add: consecutive_events_eq consecutive_losses_events_def Let_def)
  show "(consecutive_events tz cfg lcs \<noteq> []) \<longleftrightarrow>
      2 \<le> consecutive_losses_n cfg \<and>
      (\<exists>es pre window.
         sorted_by_exit (filter has_exit_and_pnl (map recompute lcs)) es \<and>
         es = pre @ window \<and>
         int (length window) = consecutive_losses_n cfg \<and>
         (\<forall>w \<in> set window. \<exists>p. realized_pnl_usdt (metrics w) = Some p \<and> p < 0))"
    unfolding consecutive_events_eq by (rule consecutive_fires_spec)
next
  assume "consecutive_losses_n cfg < 2"
  then show "consecutive_events tz cfg lcs = []"
    by (simp add: consecutive_events_eq consecutive_losses_events_def Let_def)
qed (simp_all add: consecutive_examples)

theorem consecutive_losses_rule_witness:
  "consecutive_losses_n (config_n 1) < 2 \<and>
   consecutive_events no_conversion (config_n 1) three_lcs = [] \<and>
   2 \<le> consecutive_losses_n (config_n 2) \<and>
   consecutive_events no_conversion (config_n 2) crossing_lcs \<noteq> [] \<and>
   (\<exists>es pre window.
      sorted_by_exit (filter has_exit_and_pnl (map recompute crossing_lcs)) es \<and>
      es = pre @ window \<and> int (length window) = consecutive_losses_n (config_n 2) \<and>
      (\<forall>w \<in> set window. \<exists>p. realized_pnl_usdt (metrics w) = Some p \<and> p < 0))"
proof -
  have a: "consecutive_losses_n (config_n 1) < 2" "2 \<le> consecutive_losses_n (config_n 2)"
    by (simp_all add: config_n_def)
  note t = consecutive_losses_rule [of no_conversion "config_n 2" crossing_lcs]
  from t have "map ev_lifecycle_id (consecutive_events no_conversion (config_n 2) crossing_lcs)
      = [''A'']" by blast
  then have b: "consecutive_events no_conversion (config_n 2) crossing_lcs \<noteq> []" by auto
  from t b have c: "\<exists>es pre window.
      sorted_by_exit (filter has_exit_and_pnl (map recompute crossing_lcs)) es \<and>
      es = pre @ window \<and> int (length window) = consecutive_losses_n (config_n 2) \<and>
      (\<forall>w \<in> set window. \<exists>p. realized_pnl_usdt (metrics w) = Some p \<and> p < 0)"
    by blast
  show ?thesis
    using a b c consecutive_losses_rule [of no_conversion "config_n 1" three_lcs] by blast
qed

text \<open>
  The claim as stated, for every window size, fails for \<open>N = 1\<close>: the only eligible
  lifecycle is a loss, so the last entry is a loss, and no event is emitted.
\<close>

theorem consecutive_losses_n1_counterexample:
  "map pnl_of (eligible_by_exit (map recompute [pnl_lc ''l1'' 1 (- 1)])) = [Some (- 1)] \<and>
   consecutive_events no_conversion (config_n 1) [pnl_lc ''l1'' 1 (- 1)] = []"
  by code_simp

section \<open>Properties of the lifecycle aggregation\<close>

lemma running_qty_snoc: "running_qty (fs @ [f]) = running_qty fs + agg_delta f"
  by (simp add: running_qty_def)

lemma running_qty_single: "running_qty [f] = agg_delta f"
  by (simp add: running_qty_def)

lemma live_single: "0 \<le> agg_delta f \<Longrightarrow> live_path [f]"
  by (simp add: live_path_def running_qty_single)

lemma closed_single: "agg_delta f \<le> 0 \<Longrightarrow> closed_path [f]"
  by (simp add: closed_path_def running_qty_single)

lemma take_snoc_le: "k \<le> length fs \<Longrightarrow> take k (fs @ [f]) = take k fs"
  by simp

lemma live_snoc:
  assumes "live_path fs" "0 < running_qty (fs @ [f])"
  shows "live_path (fs @ [f])"
proof -
  have ne: "fs \<noteq> []" using assms(1) by (simp add: live_path_def)
  then have l1: "1 \<le> length fs" by (cases fs) simp_all
  have a: "0 \<le> running_qty (take 1 (fs @ [f]))"
    using assms(1) l1 by (simp add: live_path_def)
  have b: "0 < running_qty (take k (fs @ [f]))" if "k \<in> {2..length (fs @ [f])}" for k
  proof (cases "k \<le> length fs")
    case True
    with that have "k \<in> {2..length fs}" by simp
    with assms(1) have "0 < running_qty (take k fs)" by (simp add: live_path_def)
    with True show ?thesis by simp
  next
    case False
    with that have "k = length (fs @ [f])" by simp
    with assms(2) show ?thesis by simp
  qed
  show ?thesis using a b by (simp add: live_path_def)
qed

lemma closed_snoc:
  assumes "live_path fs" "running_qty (fs @ [f]) \<le> 0"
  shows "closed_path (fs @ [f])"
proof -
  have ne: "fs \<noteq> []" using assms(1) by (simp add: live_path_def)
  then have l1: "1 \<le> length fs" by (cases fs) simp_all
  have "take 1 (fs @ [f]) = take 1 fs" using l1 by simp
  then have a: "0 \<le> running_qty (take 1 (fs @ [f]))"
    using assms(1) by (simp only: live_path_def)
  have b: "0 < running_qty (take k (fs @ [f]))" if "k \<in> {2..<length (fs @ [f])}" for k
  proof -
    from that have k: "k \<in> {2..length fs}" by simp
    with assms(1) have "0 < running_qty (take k fs)" by (simp add: live_path_def)
    with k show ?thesis by simp
  qed
  have "fs @ [f] \<noteq> []" by simp
  with a b assms(2) show ?thesis unfolding closed_path_def by blast
qed

lemma agg_start_fills [simp]: "fills (agg_start fmt exch symb ps f) = [f]"
  by (simp add: agg_start_def)

lemma agg_invI:
  assumes "\<And>p. current_by_side st p = None \<Longrightarrow> qty_by_side st p = 0"
    and "\<And>p c. current_by_side st p = Some c \<Longrightarrow>
           qty_by_side st p = running_qty (fills c) \<and> live_path (fills c)"
    and "\<And>lc. lc \<in> set (out_lifecycles st) \<Longrightarrow>
           status lc = status_closed \<and> closed_path (fills lc)"
  shows "agg_inv st"
  using assms by (simp add: agg_inv_def)

lemma agg_invD:
  assumes "agg_inv st"
  shows "current_by_side st p = None \<Longrightarrow> qty_by_side st p = 0"
    and "current_by_side st p = Some c \<Longrightarrow> qty_by_side st p = running_qty (fills c)"
    and "current_by_side st p = Some c \<Longrightarrow> live_path (fills c)"
    and "lc \<in> set (out_lifecycles st) \<Longrightarrow> status lc = status_closed"
    and "lc \<in> set (out_lifecycles st) \<Longrightarrow> closed_path (fills lc)"
  using assms by (simp_all add: agg_inv_def)

text \<open>The three ways in which \<open>_append\<close> changes the state.\<close>

lemma agg_inv_set_current:
  assumes "agg_inv st" "live_path (fills c)" "q = running_qty (fills c)"
  shows "agg_inv (st\<lparr>qty_by_side := (qty_by_side st)(ps := q),
                      current_by_side := (current_by_side st)(ps := Some c)\<rparr>)"
proof (rule agg_invI)
  fix p
  assume "current_by_side (st\<lparr>qty_by_side := (qty_by_side st)(ps := q),
            current_by_side := (current_by_side st)(ps := Some c)\<rparr>) p = None"
  then show "qty_by_side (st\<lparr>qty_by_side := (qty_by_side st)(ps := q),
            current_by_side := (current_by_side st)(ps := Some c)\<rparr>) p = 0"
    using agg_invD(1) [OF assms(1), of p] by (cases "p = ps") simp_all
next
  fix p c'
  assume "current_by_side (st\<lparr>qty_by_side := (qty_by_side st)(ps := q),
            current_by_side := (current_by_side st)(ps := Some c)\<rparr>) p = Some c'"
  then show "qty_by_side (st\<lparr>qty_by_side := (qty_by_side st)(ps := q),
            current_by_side := (current_by_side st)(ps := Some c)\<rparr>) p = running_qty (fills c')
          \<and> live_path (fills c')"
    using agg_invD(2,3) [OF assms(1), of p c'] assms(2,3) by (cases "p = ps") auto
next
  fix lc
  assume "lc \<in> set (out_lifecycles (st\<lparr>qty_by_side := (qty_by_side st)(ps := q),
            current_by_side := (current_by_side st)(ps := Some c)\<rparr>))"
  then show "status lc = status_closed \<and> closed_path (fills lc)"
    using agg_invD(4,5) [OF assms(1), of lc] by simp
qed

lemma agg_inv_flush_closed:
  assumes "agg_inv st" "closed_path (fills c)" "status c = status_closed"
  shows "agg_inv (st\<lparr>qty_by_side := (qty_by_side st)(ps := 0),
                      current_by_side := (current_by_side st)(ps := None),
                      out_lifecycles := out_lifecycles st @ [c]\<rparr>)"
proof (rule agg_invI)
  fix p
  show "qty_by_side (st\<lparr>qty_by_side := (qty_by_side st)(ps := 0),
                      current_by_side := (current_by_side st)(ps := None),
                      out_lifecycles := out_lifecycles st @ [c]\<rparr>) p = 0"
    if "current_by_side (st\<lparr>qty_by_side := (qty_by_side st)(ps := 0),
                      current_by_side := (current_by_side st)(ps := None),
                      out_lifecycles := out_lifecycles st @ [c]\<rparr>) p = None"
    using that agg_invD(1) [OF assms(1), of p] by (cases "p = ps") simp_all
next
  fix p c'
  show "qty_by_side (st\<lparr>qty_by_side := (qty_by_side st)(ps := 0),
                      current_by_side := (current_by_side st)(ps := None),
                      out_lifecycles := out_lifecycles st @ [c]\<rparr>) p = running_qty (fills c')
          \<and> live_path (fills c')"
    if "current_by_side (st\<lparr>qty_by_side := (qty_by_side st)(ps := 0),
                      current_by_side := (current_by_side st)(ps := None),
                      out_lifecycles := out_lifecycles st @ [c]\<rparr>) p = Some c'"
    using that agg_invD(2,3) [OF assms(1), of p c'] by (cases "p = ps") auto
next
  fix lc
  show "status lc = status_closed \<and> closed_path (fills lc)"
    if "lc \<in> set (out_lifecycles (st\<lparr>qty_by_side := (qty_by_side st)(ps := 0),
                      current_by_side := (current_by_side st)(ps := None),
                      out_lifecycles := out_lifecycles st @ [c]\<rparr>))"
    using that agg_invD(4,5) [OF assms(1), of lc] assms(2,3) by auto
qed

lemma agg_inv_warnings [simp]: "agg_inv (st\<lparr>out_warnings := w\<rparr>) = agg_inv st"
  by (simp add: agg_inv_def)

lemma agg_append_inv:
  assumes inv: "agg_inv st"
  shows "agg_inv (agg_append fmt exch symb st ps f (agg_delta f))"
proof (cases "current_by_side st ps")
  case None
  with inv have q0: "qty_by_side st ps = 0" by (simp add: agg_invD(1))
  let ?new = "agg_start fmt exch symb ps f"
  consider (start) "0 < agg_delta f" | (early) "agg_delta f < 0" | (zero) "agg_delta f = 0"
    by linarith
  then show ?thesis
  proof cases
    case start
    have e: "agg_append fmt exch symb st ps f (agg_delta f) =
               st\<lparr>qty_by_side := (qty_by_side st)(ps := agg_delta f),
                  current_by_side := (current_by_side st)(ps := Some ?new)\<rparr>"
      using start by (simp add: agg_append_def Let_def None q0)
    show ?thesis unfolding e
      using start by (intro agg_inv_set_current inv) (simp_all add: live_single running_qty_single)
  next
    case early
    have e: "agg_append fmt exch symb st ps f (agg_delta f) =
               (st\<lparr>qty_by_side := (qty_by_side st)(ps := 0),
                   current_by_side := (current_by_side st)(ps := None),
                   out_lifecycles := out_lifecycles st @
                     [recompute (?new\<lparr>status := status_closed\<rparr>)]\<rparr>)
               \<lparr>out_warnings := out_warnings st @
                  [''Symbol '' @ symb @ '' ('' @ ps_value ps @ ''): saw close before open at ''
                     @ fmt (ts f) @ '' (window incomplete).'']\<rparr>"
      using early by (simp add: agg_append_def Let_def None q0)
    show ?thesis unfolding e agg_inv_warnings
      using early by (intro agg_inv_flush_closed inv) (simp_all add: closed_single)
  next
    case zero
    have e: "agg_append fmt exch symb st ps f (agg_delta f) =
               (st\<lparr>qty_by_side := (qty_by_side st)(ps := agg_delta f),
                   current_by_side := (current_by_side st)(ps := Some ?new)\<rparr>)
               \<lparr>out_warnings := out_warnings st @
                  [''Symbol '' @ symb @ '' ('' @ ps_value ps
                     @ ''): lifecycle started mid-position at '' @ fmt (ts f) @ ''.'']\<rparr>"
      using zero by (simp add: agg_append_def Let_def None q0)
    show ?thesis unfolding e agg_inv_warnings
      using zero by (intro agg_inv_set_current inv) (simp_all add: live_single running_qty_single)
  qed
next
  case (Some cur)
  with inv have c: "qty_by_side st ps = running_qty (fills cur)" "live_path (fills cur)"
    by (simp_all add: agg_invD(2,3))
  let ?cur1 = "cur\<lparr>fills := fills cur @ [f]\<rparr>"
  show ?thesis
  proof (cases "qty_by_side st ps + agg_delta f \<le> 0")
    case True
    then have "running_qty (fills cur @ [f]) \<le> 0" by (simp add: running_qty_snoc c(1))
    then have cl: "closed_path (fills cur @ [f])" by (rule closed_snoc [OF c(2)])
    have e: "agg_append fmt exch symb st ps f (agg_delta f) =
               st\<lparr>qty_by_side := (qty_by_side st)(ps := 0),
                  current_by_side := (current_by_side st)(ps := None),
                  out_lifecycles := out_lifecycles st @
                    [recompute (?cur1\<lparr>status := status_closed\<rparr>)]\<rparr>"
      using True by (simp add: agg_append_def Let_def Some)
    show ?thesis unfolding e
      using cl by (intro agg_inv_flush_closed inv) simp_all
  next
    case False
    then have p: "0 < running_qty (fills cur @ [f])" by (simp add: running_qty_snoc c(1))
    then have l: "live_path (fills cur @ [f])" by (rule live_snoc [OF c(2)])
    have e: "agg_append fmt exch symb st ps f (agg_delta f) =
               st\<lparr>qty_by_side := (qty_by_side st)(ps := qty_by_side st ps + agg_delta f),
                  current_by_side := (current_by_side st)(ps := Some ?cur1)\<rparr>"
      using False by (simp add: agg_append_def Let_def Some)
    show ?thesis unfolding e
      using l by (intro agg_inv_set_current inv) (simp_all add: running_qty_snoc c(1))
  qed
qed

lemma agg_step_inv: "agg_inv st \<Longrightarrow> agg_inv (agg_step fmt exch symb st f)"
proof -
  assume inv: "agg_inv st"
  show ?thesis
  proof (cases "trade_side f")
    case TS_open
    then have "agg_step fmt exch symb st f = agg_append fmt exch symb st (hold_side f) f (agg_delta f)"
      by (simp add: agg_step_def agg_delta_def)
    then show ?thesis using agg_append_inv [OF inv] by simp
  next
    case TS_close
    then have "agg_step fmt exch symb st f = agg_append fmt exch symb st (hold_side f) f (agg_delta f)"
      by (simp add: agg_step_def agg_delta_def)
    then show ?thesis using agg_append_inv [OF inv] by simp
  next
    case TS_unknown
    let ?st = "st\<lparr>out_warnings := out_warnings st @
                  [''Symbol '' @ symb
                     @ '': missing tradeSide; cannot reliably aggregate (hedge_mode).'']\<rparr>"
    from TS_unknown have "agg_step fmt exch symb st f =
        agg_append fmt exch symb ?st (hold_side f) f (agg_delta f)"
      by (simp add: agg_step_def agg_delta_def)
    moreover have "agg_inv ?st" using inv by simp
    ultimately show ?thesis using agg_append_inv [of ?st] by simp
  qed
qed

lemma agg_foldl_inv: "agg_inv st \<Longrightarrow> agg_inv (foldl (agg_step fmt exch symb) st fs)"
  by (induction fs arbitrary: st) (simp_all add: agg_step_inv)

lemma agg_inv_init: "agg_inv agg_state_init"
  by (simp add: agg_inv_def agg_state_init_def)

lemma agg_inv_flush_inv: "agg_inv st \<Longrightarrow> flush_inv st"
  by (auto simp: agg_inv_def flush_inv_def emitted_ok_def)

lemma agg_flush_inv: "flush_inv st \<Longrightarrow> flush_inv (agg_flush st ps)"
  by (cases "current_by_side st ps")
     (auto simp: flush_inv_def agg_flush_def emitted_ok_def)

lemma agg_flush_foldl_inv: "flush_inv st \<Longrightarrow> flush_inv (foldl agg_flush st pss)"
  by (induction pss arbitrary: st) (simp_all add: agg_flush_inv)

lemma aggregate_emitted_ok:
  "lc \<in> set (lifecycles (aggregate_fills_to_lifecycles fmt exch symb fs)) \<Longrightarrow> emitted_ok lc"
proof -
  have "flush_inv (foldl agg_flush
          (foldl (agg_step fmt exch symb) agg_state_init (sort_key ts fs))
          [PS_long, PS_short, PS_unknown])"
    by (intro agg_flush_foldl_inv agg_inv_flush_inv agg_foldl_inv agg_inv_init)
  then show "lc \<in> set (lifecycles (aggregate_fills_to_lifecycles fmt exch symb fs)) \<Longrightarrow>
      emitted_ok lc"
    by (simp add: aggregate_fills_to_lifecycles_def Let_def flush_inv_def)
qed

lemma overshoot_run:
  "map status (lifecycles overshoot_result) = [status_closed] \<and>
   map final_qty (lifecycles overshoot_result) = [- 5]"
  by code_simp

lemma scale_in_run:
  "map status (lifecycles scale_in_result) = [status_open] \<and>
   map length (map fills (lifecycles scale_in_result)) = [2] \<and>
   map final_qty (lifecycles scale_in_result) = [15]"
  by code_simp

text \<open>
  C3 (as amended). For every lifecycle that the aggregator emits with status closed, the
  bucket's signed running quantity (by the aggregator's own accounting of the fill deltas,
  starting at 0) is at or below 0 after its last fill, and above 0 after every fill
  between the first and the last; it is 0 only when the closes offset the opens exactly,
  and negative after a close larger than the position or a close seen before any open.
  For every lifecycle emitted with status open, the running quantity is above 0 after
  every fill that follows the first, and not below 0 after the first.
\<close>

theorem aggregator_quantity_paths:
  "\<forall>lc \<in> set (lifecycles (aggregate_fills_to_lifecycles fmt exch symb fs)).
     fills lc \<noteq> [] \<and>
     (status lc = status_closed \<longrightarrow>
        running_qty (fills lc) \<le> 0 \<and>
        (\<forall>k \<in> {2..<length (fills lc)}. 0 < running_qty (take k (fills lc)))) \<and>
     (status lc = status_open \<longrightarrow>
        0 \<le> running_qty (take 1 (fills lc)) \<and>
        (\<forall>k \<in> {2..length (fills lc)}. 0 < running_qty (take k (fills lc))))"
proof
  fix lc
  assume "lc \<in> set (lifecycles (aggregate_fills_to_lifecycles fmt exch symb fs))"
  then have e: "emitted_ok lc" by (rule aggregate_emitted_ok)
  have s: "status lc = status_closed \<or> status lc = status_open" by (cases "status lc") simp_all
  show "fills lc \<noteq> [] \<and>
     (status lc = status_closed \<longrightarrow>
        running_qty (fills lc) \<le> 0 \<and>
        (\<forall>k \<in> {2..<length (fills lc)}. 0 < running_qty (take k (fills lc)))) \<and>
     (status lc = status_open \<longrightarrow>
        0 \<le> running_qty (take 1 (fills lc)) \<and>
        (\<forall>k \<in> {2..length (fills lc)}. 0 < running_qty (take k (fills lc))))"
    using e s unfolding emitted_ok_def closed_path_def live_path_def by blast
qed

theorem aggregator_quantity_paths_witness:
  "hd (lifecycles overshoot_result) \<in> set (lifecycles overshoot_result) \<and>
   status (hd (lifecycles overshoot_result)) = status_closed \<and>
   running_qty (fills (hd (lifecycles overshoot_result))) \<le> 0 \<and>
   hd (lifecycles scale_in_result) \<in> set (lifecycles scale_in_result) \<and>
   status (hd (lifecycles scale_in_result)) = status_open \<and>
   2 \<in> {2..length (fills (hd (lifecycles scale_in_result)))} \<and>
   0 < running_qty (take 2 (fills (hd (lifecycles scale_in_result))))"
proof -
  obtain a where a: "lifecycles overshoot_result = [a]" "status a = status_closed"
    using overshoot_run by auto
  obtain b where b: "lifecycles scale_in_result = [b]" "status b = status_open"
    "length (fills b) = 2"
    using scale_in_run by auto
  have ma: "a \<in> set (lifecycles (aggregate_fills_to_lifecycles plain_isoformat ''bitget''
              ''BTC/USDT:USDT'' overshoot_fills))"
    using a(1) by (simp add: overshoot_result_def)
  have mb: "b \<in> set (lifecycles (aggregate_fills_to_lifecycles plain_isoformat ''bitget''
              ''BTC/USDT:USDT'' scale_in_fills))"
    using b(1) by (simp add: scale_in_result_def)
  have k: "(2::nat) \<in> {2..length (fills b)}" using b(3) by simp
  from aggregator_quantity_paths [of plain_isoformat "''bitget''" "''BTC/USDT:USDT''"
      overshoot_fills] ma a(2)
  have ra: "running_qty (fills a) \<le> 0" by blast
  from aggregator_quantity_paths [of plain_isoformat "''bitget''" "''BTC/USDT:USDT''"
      scale_in_fills] mb b(2) k
  have rb: "0 < running_qty (take 2 (fills b))" by blast
  show ?thesis using a b k ra rb by simp
qed

text \<open>
  The claim as stated fails for a close larger than the position: the lifecycle is
  emitted closed, and its running quantity after the last fill is -5, not 0.
\<close>

theorem closed_overshoot_counterexample:
  "map status (lifecycles overshoot_result) = [status_closed] \<and>
   map final_qty (lifecycles overshoot_result) = [- 5]"
  by (rule overshoot_run)

end
